theory Spec2Isabelle
  imports Main "HOL-Library.Word"
begin

section \<open>The coordinator's handler of webseed piece results\<close>

text \<open>
  The handler \<open>handleWebseedPieceResult\<close> of package \<open>torrent\<close> runs on the
  coordinator loop. It reads and writes these fields of the torrent: the piece array
  (of a piece, only the flag \<open>Writing\<close>), the counter \<open>resumerStats.BytesDownloaded\<close>
  (an \<open>int64\<close>), the download speed meter, and the two suspendable channels
  \<open>pieceMessagesC\<close> and \<open>webseedPieceResultC\<close>. Its effects on the outside (a log
  line, a call of \<open>Suspend\<close>, the \<open>go\<close> statement starting a piece writer) are
  recorded in order in \<open>trace\<close>.
\<close>

type_synonym byte = "8 word"

type_synonym int64 = "64 word"

record Piece =
  Writing :: bool

text \<open>
  Modelled from the spec: the type \<open>webseedsource.Source\<close> is not among the sources.
  Section 4.6 of the specification gives each webseed URL a mark "disabled"; the
  torrent holds one source per URL (\<open>t.webseedSources\<close>).
\<close>

record Source =
  URL :: string
  Disabled :: bool

text \<open>\<open>urldownloader.PieceResult\<close>: the fields the handler reads.\<close>

record PieceResult =
  Error :: "string option"
  Index :: nat
  Buffer_Data :: "byte list"
  Downloader :: string

datatype chan_state = Receiving | Suspended

datatype chan_name = PieceMessagesC | WebseedPieceResultC

text \<open>\<open>piecewriter.New(piece, msg.Downloader, msg.Buffer)\<close>\<close>

record PieceWriter =
  pw_Piece :: nat
  pw_Source :: string
  pw_Buffer :: "byte list"

datatype effect =
    LogError string string
  | Suspend chan_name
  | GoPieceWriterRun PieceWriter

record torrent =
  pieces :: "Piece list"
  BytesDownloaded :: int64
  downloadSpeed :: "int64 list"
  pieceMessagesC :: chan_state
  webseedPieceResultC :: chan_state
  webseedSources :: "Source list"
  trace :: "effect list"

text \<open>
  A run of the handler either returns, with the torrent as the handler left it, or
  panics: \<open>Inl\<close> carries the panic and the torrent as it was when the panic was raised.
  Indexing \<open>t.pieces\<close> out of range is a run-time panic of Go.
\<close>

datatype panic = IndexOutOfRange | PieceIsAlreadyWriting

type_synonym handled = "panic \<times> torrent + torrent"

definition piecewriter_New :: "nat \<Rightarrow> string \<Rightarrow> byte list \<Rightarrow> PieceWriter" where
  "piecewriter_New i d b = \<lparr>pw_Piece = i, pw_Source = d, pw_Buffer = b\<rparr>"

definition handleWebseedPieceResult :: "torrent \<Rightarrow> PieceResult \<Rightarrow> handled" where
  "handleWebseedPieceResult t msg =
     (case Error msg of
        Some e \<Rightarrow> Inr (t\<lparr>trace := trace t @ [LogError ''webseed download error:'' e]\<rparr>)
      | None \<Rightarrow>
          if length (pieces t) \<le> Index msg then Inl (IndexOutOfRange, t)
          else
            let n = (of_nat (length (Buffer_Data msg)) :: int64);
                t1 = t\<lparr>BytesDownloaded := BytesDownloaded t + n\<rparr>;
                t2 = t1\<lparr>downloadSpeed := downloadSpeed t1 @ [n]\<rparr>
            in if Writing (pieces t2 ! Index msg) then Inl (PieceIsAlreadyWriting, t2)
               else
                 let t3 = t2\<lparr>pieces := (pieces t2)[Index msg := (pieces t2 ! Index msg)\<lparr>Writing := True\<rparr>]\<rparr>;
                     t4 = t3\<lparr>pieceMessagesC := Suspended,
                             trace := trace t3 @ [Suspend PieceMessagesC]\<rparr>;
                     t5 = t4\<lparr>webseedPieceResultC := Suspended,
                             trace := trace t4 @ [Suspend WebseedPieceResultC]\<rparr>;
                     pw = piecewriter_New (Index msg) (Downloader msg) (Buffer_Data msg)
                 in Inr (t5\<lparr>trace := trace t5 @ [GoPieceWriterRun pw]\<rparr>))"

text \<open>The torrent a run of the handler leaves behind, whichever way it ended.\<close>

fun torrent_after :: "handled \<Rightarrow> torrent" where
  "torrent_after (Inl (p, t)) = t"
| "torrent_after (Inr t) = t"

text \<open>The piece writers started so far, oldest first.\<close>

fun writers_started :: "effect list \<Rightarrow> PieceWriter list" where
  "writers_started [] = []"
| "writers_started (GoPieceWriterRun w # es) = w # writers_started es"
| "writers_started (e # es) = writers_started es"

section \<open>Peer connections and the handshake (package rain)\<close>

subsection \<open>The connection\<close>

text \<open>
  A \<open>net.Conn\<close>, seen from the client. \<open>rx\<close> holds the bytes the peer is going to
  send, each with the time (in nanoseconds, the unit of \<open>time.Duration\<close>) at which it
  arrives; after the last of them the peer either closes its side at the time
  \<open>rx_close\<close> or, with \<open>None\<close>, stays silent for ever. \<open>tx\<close> collects the bytes
  written to the peer. \<open>clock\<close> is what \<open>time.Now()\<close> returns; waiting for a byte
  moves it to the arrival of that byte. \<open>deadline\<close> is the deadline set on the
  connection (\<open>None\<close> for the zero \<open>time.Time\<close>, no deadline). \<open>tx_error\<close> and
  \<open>deadline_error\<close> are the errors, if any, that writing and \<open>SetDeadline\<close> run into.
\<close>

datatype error =
    io_EOF
  | io_ErrUnexpectedEOF
  | ErrIOTimeout
  | ErrNet string
  | errors_New string

record Conn =
  rx :: "(nat \<times> byte) list"
  rx_close :: "nat option"
  tx :: "byte list"
  tx_error :: "error option"
  clock :: nat
  deadline :: "nat option"
  deadline_error :: "error option"
  is_closed :: bool

definition time_Minute :: nat where
  "time_Minute = 60 * 1000000000"

text \<open>
  Waiting until the time \<open>a\<close> for something to happen on the connection: \<open>Inl\<close> when
  the deadline passes first (an I/O operation fails once the deadline is exceeded),
  \<open>Inr\<close> otherwise.
\<close>

definition await :: "Conn \<Rightarrow> nat \<Rightarrow> Conn + Conn" where
  "await c a =
     (case deadline c of
        None \<Rightarrow> Inr (c\<lparr>clock := max (clock c) a\<rparr>)
      | Some d \<Rightarrow>
          if d < max (clock c) a then Inl (c\<lparr>clock := max (clock c) d\<rparr>)
          else Inr (c\<lparr>clock := max (clock c) a\<rparr>))"

text \<open>
  \<open>conn.Read\<close> into a buffer of one byte. The result \<open>None\<close> stands for a call that
  never returns: nothing arrives, the peer does not close, and no deadline is set.
\<close>

definition conn_Read1 :: "Conn \<Rightarrow> (Conn \<times> (error + byte)) option" where
  "conn_Read1 c =
     (case rx c of
        (a, b) # rest \<Rightarrow>
          (case await c a of
             Inl c' \<Rightarrow> Some (c', Inl ErrIOTimeout)
           | Inr c' \<Rightarrow> Some (c'\<lparr>rx := rest\<rparr>, Inr b))
      | [] \<Rightarrow>
          (case rx_close c of
             Some a \<Rightarrow>
               (case await c a of
                  Inl c' \<Rightarrow> Some (c', Inl ErrIOTimeout)
                | Inr c' \<Rightarrow> Some (c', Inl io_EOF))
           | None \<Rightarrow>
               (case deadline c of
                  None \<Rightarrow> None
                | Some d \<Rightarrow> Some (c\<lparr>clock := max (clock c) d\<rparr>, Inl ErrIOTimeout))))"

text \<open>
  \<open>io.ReadFull\<close> reads until the buffer of \<open>n\<close> bytes is full. The end of the stream
  is \<open>io.EOF\<close> when no byte was read and \<open>io.ErrUnexpectedEOF\<close> after some.
\<close>

primrec read_loop :: "nat \<Rightarrow> Conn \<Rightarrow> byte list \<Rightarrow> (Conn \<times> (error + byte list)) option" where
  "read_loop 0 c buf = Some (c, Inr buf)"
| "read_loop (Suc n) c buf =
     (case conn_Read1 c of
        None \<Rightarrow> None
      | Some (c', Inl e) \<Rightarrow>
          Some (c', Inl (if e = io_EOF \<and> buf \<noteq> [] then io_ErrUnexpectedEOF else e))
      | Some (c', Inr b) \<Rightarrow> read_loop n c' (buf @ [b]))"

definition io_ReadFull :: "Conn \<Rightarrow> nat \<Rightarrow> (Conn \<times> (error + byte list)) option" where
  "io_ReadFull c n = read_loop n c []"

text \<open>
  \<open>io.CopyN(ioutil.Discard, conn, n)\<close> reads \<open>n\<close> bytes and throws them away; a stream
  that ends early is \<open>io.EOF\<close>.
\<close>

primrec io_CopyN_Discard :: "Conn \<Rightarrow> nat \<Rightarrow> (Conn \<times> (error + unit)) option" where
  "io_CopyN_Discard c 0 = Some (c, Inr ())"
| "io_CopyN_Discard c (Suc n) =
     (case conn_Read1 c of
        None \<Rightarrow> None
      | Some (c', Inl e) \<Rightarrow> Some (c', Inl e)
      | Some (c', Inr b) \<Rightarrow> io_CopyN_Discard c' n)"

text \<open>\<open>conn.Write\<close>: the deadline holds for writing too.\<close>

definition conn_Write :: "Conn \<Rightarrow> byte list \<Rightarrow> Conn \<times> error option" where
  "conn_Write c bs =
     (case tx_error c of
        Some e \<Rightarrow> (c, Some e)
      | None \<Rightarrow>
          (case await c (clock c) of
             Inl c' \<Rightarrow> (c', Some ErrIOTimeout)
           | Inr c' \<Rightarrow> (c'\<lparr>tx := tx c' @ bs\<rparr>, None)))"

definition conn_SetDeadline :: "Conn \<Rightarrow> nat option \<Rightarrow> Conn \<times> error option" where
  "conn_SetDeadline c d =
     (case deadline_error c of
        Some e \<Rightarrow> (c, Some e)
      | None \<Rightarrow> (c\<lparr>deadline := d\<rparr>, None))"

definition conn_Close :: "Conn \<Rightarrow> Conn" where
  "conn_Close c = c\<lparr>is_closed := True\<rparr>"

subsection \<open>The handshake\<close>

definition bytes_of :: "string \<Rightarrow> byte list" where
  "bytes_of s = map (\<lambda>ch. of_nat (of_char ch)) s"

definition bitTorrent10pstrLen :: nat where
  "bitTorrent10pstrLen = 19"

definition bitTorrent10pstr :: "byte list" where
  "bitTorrent10pstr = bytes_of ''BitTorrent protocol''"

record Rain =
  peerID :: "byte list"

text \<open>
  \<open>readHandShake\<close> in two parts. The first runs up to the point where the info hash
  has been read and is sent on \<open>notifyInfoHash\<close>; the second reads the peer id. The
  split is the point at which \<open>servePeerConn\<close>, waiting on the channel, goes on.
\<close>

definition readHandShake_infoHash :: "Conn \<Rightarrow> (Conn \<times> (error + byte list)) option" where
  "readHandShake_infoHash conn =
     (case conn_Read1 conn of
        None \<Rightarrow> None
      | Some (c1, Inl err) \<Rightarrow> Some (c1, Inl err)
      | Some (c1, Inr pstrlen) \<Rightarrow>
          if pstrlen \<noteq> of_nat bitTorrent10pstrLen
          then Some (c1, Inl (errors_New ''unexpected pstrlen''))
          else
            (case io_ReadFull c1 bitTorrent10pstrLen of
               None \<Rightarrow> None
             | Some (c2, Inl err) \<Rightarrow> Some (c2, Inl err)
             | Some (c2, Inr buf) \<Rightarrow>
                 if buf \<noteq> bitTorrent10pstr
                 then Some (c2, Inl (errors_New ''unexpected pstr''))
                 else
                   (case io_CopyN_Discard c2 8 of
                      None \<Rightarrow> None
                    | Some (c3, Inl err) \<Rightarrow> Some (c3, Inl err)
                    | Some (c3, Inr u) \<Rightarrow> io_ReadFull c3 20)))"

definition readHandShake_peerID :: "Conn \<Rightarrow> (Conn \<times> (error + byte list)) option" where
  "readHandShake_peerID conn = io_ReadFull conn 20"

text \<open>
  The result of \<open>readHandShake\<close>: the connection, what was sent on \<open>notifyInfoHash\<close>
  (nothing when the channel is \<open>nil\<close>), and the peer id or the error.
\<close>

definition readHandShake ::
    "Conn \<Rightarrow> bool \<Rightarrow> (Conn \<times> byte list option \<times> (error + byte list)) option" where
  "readHandShake conn notifyInfoHash =
     (case readHandShake_infoHash conn of
        None \<Rightarrow> None
      | Some (c1, Inl err) \<Rightarrow> Some (c1, None, Inl err)
      | Some (c1, Inr infoHash) \<Rightarrow>
          (case readHandShake_peerID c1 of
             None \<Rightarrow> None
           | Some (c2, r) \<Rightarrow> Some (c2, if notifyInfoHash then Some infoHash else None, r)))"

record HandShake =
  Pstrlen :: byte
  Pstr :: "byte list"
  Reserved :: "byte list"
  hs_InfoHash :: "byte list"
  hs_PeerID :: "byte list"

text \<open>Go's \<open>copy(dst, src)\<close> on slices: as many elements as the shorter one has.\<close>

definition copy_bytes :: "byte list \<Rightarrow> byte list \<Rightarrow> byte list" where
  "copy_bytes dst src = take (length dst) src @ drop (length src) dst"

text \<open>\<open>binary.Write\<close> of the struct: its fields in order, each a byte or a byte array.\<close>

definition binary_Write :: "Conn \<Rightarrow> HandShake \<Rightarrow> Conn \<times> error option" where
  "binary_Write conn h =
     conn_Write conn (Pstrlen h # Pstr h @ Reserved h @ hs_InfoHash h @ hs_PeerID h)"

definition sendHandShake :: "Rain \<Rightarrow> Conn \<Rightarrow> byte list \<Rightarrow> Conn \<times> error option" where
  "sendHandShake r conn ih =
     (let handShake = \<lparr>Pstrlen = of_nat bitTorrent10pstrLen,
                       Pstr = replicate bitTorrent10pstrLen 0,
                       Reserved = replicate 8 0,
                       hs_InfoHash = ih,
                       hs_PeerID = peerID r\<rparr>;
          handShake = handShake\<lparr>Pstr := copy_bytes (Pstr handShake) bitTorrent10pstr\<rparr>
      in binary_Write conn handShake)"

subsection \<open>Serving and dialling a peer\<close>

text \<open>
  How a connection ends up: abandoned, for the reason given (the source either drops
  the reason or logs it), or handed to \<open>communicateWithPeer\<close>.
\<close>

datatype reason = Because error | UnexpectedInfoHash

datatype ending = Abandoned reason | Communicated

definition communicateWithPeer :: "Conn \<Rightarrow> Conn" where
  "communicateWithPeer conn = fst (conn_SetDeadline conn None)"

text \<open>
  \<open>servePeerConn\<close>, for an accepted connection. The goroutine that reads the handshake
  and the \<open>select\<close> on the two channels are put in sequence: the first part of
  \<open>readHandShake\<close>, then (case \<open>infoHashC\<close>) the sending of the own handshake, then the
  second part and the receive on \<open>errC\<close>. Where both channels are ready at once Go's
  \<open>select\<close> may take either case; the two differ only in whether the own handshake has
  been written before the function returns. \<open>conn.Close\<close> is deferred, so it runs on
  every return.
\<close>

definition servePeerConn :: "Rain \<Rightarrow> Conn \<Rightarrow> (Conn \<times> ending) option" where
  "servePeerConn r conn =
     map_option (\<lambda>(c, e). (conn_Close c, e))
       (case conn_SetDeadline conn (Some (clock conn + time_Minute)) of
          (c0, Some err) \<Rightarrow> Some (c0, Abandoned (Because err))
        | (c0, None) \<Rightarrow>
            (case readHandShake_infoHash c0 of
               None \<Rightarrow> None
             | Some (c1, Inl err) \<Rightarrow> Some (c1, Abandoned (Because err))
             | Some (c1, Inr infoHash) \<Rightarrow>
                 (case sendHandShake r c1 infoHash of
                    (c2, Some err) \<Rightarrow> Some (c2, Abandoned (Because err))
                  | (c2, None) \<Rightarrow>
                      (case readHandShake_peerID c2 of
                         None \<Rightarrow> None
                       | Some (c3, Inl err) \<Rightarrow> Some (c3, Abandoned (Because err))
                       | Some (c3, Inr pid) \<Rightarrow> Some (communicateWithPeer c3, Communicated)))))"

text \<open>
  \<open>connectToPeer\<close>, for a peer of the announce response. \<open>dialed\<close> is what
  \<open>net.DialTCP\<close> returned and \<open>ih\<close> is \<open>d.TorrentFile.InfoHash\<close>. Receiving from
  \<open>infoHashC\<close> when nothing was sent on it would block.
\<close>

definition connectToPeer ::
    "Rain \<Rightarrow> error + Conn \<Rightarrow> byte list \<Rightarrow> (Conn option \<times> ending) option" where
  "connectToPeer r dialed ih =
     (case dialed of
        Inl err \<Rightarrow> Some (None, Abandoned (Because err))
      | Inr conn \<Rightarrow>
          (case sendHandShake r conn ih of
             (c1, Some err) \<Rightarrow> Some (Some c1, Abandoned (Because err))
           | (c1, None) \<Rightarrow>
               (case readHandShake c1 True of
                  None \<Rightarrow> None
                | Some (c2, sent, Inl err) \<Rightarrow> Some (Some c2, Abandoned (Because err))
                | Some (c2, None, Inr pid) \<Rightarrow> None
                | Some (c2, Some infoHash, Inr pid) \<Rightarrow>
                    if infoHash \<noteq> ih then Some (Some c2, Abandoned UnexpectedInfoHash)
                    else Some (Some (communicateWithPeer c2), Communicated))))"

text \<open>
  For the statement of properties: the connection after its first \<open>n\<close> pending bytes
  have been received, and whether these \<open>n\<close> bytes arrive before the deadline.
\<close>

definition received :: "Conn \<Rightarrow> nat \<Rightarrow> Conn" where
  "received c n = c\<lparr>rx := drop n (rx c), clock := fold max (map fst (take n (rx c))) (clock c)\<rparr>"

definition in_time :: "Conn \<Rightarrow> nat \<Rightarrow> bool" where
  "in_time c n =
     (case deadline c of
        None \<Rightarrow> True
      | Some d \<Rightarrow> list_all (\<lambda>(a, b). clock c \<le> d \<and> a \<le> d) (take n (rx c)))"

section \<open>Adding a torrent to the session (package torrent)\<close>

subsection \<open>Library functions\<close>

text \<open>
  \<open>base64.RawURLEncoding.EncodeToString\<close>: three bytes give four characters of the
  URL-safe alphabet, a rest of one or two bytes gives two or three, and there is no
  padding.
\<close>

definition encodeURL :: string where
  "encodeURL = ''ABCDEFGHIJKLMNOPQRSTUVWXYZabcdefghijklmnopqrstuvwxyz0123456789-_''"

fun base64_RawURLEncoding_EncodeToString :: "byte list \<Rightarrow> string" where
  "base64_RawURLEncoding_EncodeToString (a # b # c # src) =
     [encodeURL ! (unat a div 4),
      encodeURL ! ((unat a mod 4) * 16 + unat b div 16),
      encodeURL ! ((unat b mod 16) * 4 + unat c div 64),
      encodeURL ! (unat c mod 64)] @ base64_RawURLEncoding_EncodeToString src"
| "base64_RawURLEncoding_EncodeToString [a, b] =
     [encodeURL ! (unat a div 4),
      encodeURL ! ((unat a mod 4) * 16 + unat b div 16),
      encodeURL ! ((unat b mod 16) * 4)]"
| "base64_RawURLEncoding_EncodeToString [a] =
     [encodeURL ! (unat a div 4),
      encodeURL ! ((unat a mod 4) * 16)]"
| "base64_RawURLEncoding_EncodeToString [] = []"

fun strings_Join :: "string list \<Rightarrow> string \<Rightarrow> string" where
  "strings_Join [] sep = []"
| "strings_Join [e] sep = e"
| "strings_Join (e # es) sep = e @ sep @ strings_Join es sep"

text \<open>
  \<open>filepath.Join\<close> joins the elements from the first non-empty one on with the
  separator and cleans the result; \<open>filepath.Clean\<close> is a parameter.
\<close>

definition filepath_Join :: "(string \<Rightarrow> string) \<Rightarrow> string list \<Rightarrow> string" where
  "filepath_Join clean elem =
     (case dropWhile (\<lambda>e. e = []) elem of
        [] \<Rightarrow> []
      | es \<Rightarrow> clean (strings_Join es ''/''))"

subsection \<open>Data\<close>

record Config =
  DataDir :: string
  MaxTorrentSize :: nat

record Info =
  Info_Hash :: "byte list"
  Info_Name :: string
  Info_IsPrivate :: bool
  Info_Bytes :: "byte list"

record MetaInfo =
  mi_Info :: Info
  mi_AnnounceList :: "string list list"
  mi_URLList :: "string list"

record Magnet =
  ma_InfoHash :: "byte list"
  ma_Name :: string
  ma_Trackers :: "string list list"
  ma_Peers :: "string list"

record FileStorage =
  fs_Dest :: string

record Stats =
  st_BytesDownloaded :: int64
  st_BytesUploaded :: int64
  st_BytesWasted :: int64
  st_SeededFor :: int64

text \<open>\<open>boltdbresumer.Spec\<close>, the value written to the resume store.\<close>

record Spec =
  rs_InfoHash :: "byte list"
  rs_Dest :: string
  rs_Port :: nat
  rs_Name :: string
  rs_Trackers :: "string list list"
  rs_URLList :: "string list"
  rs_FixedPeers :: "string list"
  rs_Info :: "byte list"
  rs_AddedAt :: nat

text \<open>
  The torrent as the session sees it: the arguments \<open>newTorrent2\<close> is given, and the
  webseed sources set afterwards.
\<close>

record Torrent =
  t_id :: string
  t_addedAt :: nat
  t_infoHash :: "byte list"
  t_storage :: FileStorage
  t_name :: string
  t_port :: nat
  t_trackers :: "string list list"
  t_fixedPeers :: "string list"
  t_info :: "Info option"
  t_bitfield :: "byte list option"
  t_stats :: Stats
  t_webseedSources :: "Source list"

record AddTorrentOptions =
  Stopped :: bool

text \<open>
  The session: its configuration, the free ports of the port allocator, the two
  registries, the resume store, the torrents that were constructed and not closed, the
  torrents for which a \<open>checkTorrent\<close> goroutine was started, and the torrents started.
\<close>

record Session =
  config :: Config
  availablePorts :: "nat set"
  torrents :: "string \<rightharpoonup> Torrent"
  torrentsByInfoHash :: "byte list \<Rightarrow> Torrent list"
  resumer :: "string \<rightharpoonup> Spec"
  openTorrents :: "string list"
  goroutines :: "string list"
  started :: "string list"

text \<open>
  What the collaborators outside the sources answer: the metainfo decoder and the magnet
  parser, \<open>uuid.NewV1\<close>, \<open>filestorage.New\<close>, the errors (if any) of
  \<open>newTorrent2\<close>, of \<open>resumer.Write\<close> and of \<open>Torrent.Start\<close>, the port the
  allocator picks among the free ones, \<open>time.Now\<close>, \<open>filepath.Clean\<close> and
  \<open>Session.parseTrackers\<close>.
\<close>

record Externals =
  metainfo_New :: "byte list \<Rightarrow> error + MetaInfo"
  magnet_New :: "string \<Rightarrow> error + Magnet"
  uuid_NewV1 :: "error + byte list"
  filestorage_New :: "string \<Rightarrow> error + FileStorage"
  newTorrent2_error :: "error option"
  resumer_Write_error :: "error option"
  Start_error :: "error option"
  pick_port :: "nat set \<Rightarrow> nat"
  time_Now :: nat
  filepath_Clean :: "string \<Rightarrow> string"
  parseTrackers :: "string list list \<Rightarrow> bool \<Rightarrow> string list list"

subsection \<open>Collaborators\<close>

text \<open>
  Modelled from the spec: \<open>Session.getPort\<close> and \<open>Session.releasePort\<close> are not among
  the sources. Section 6 gives the port allocator the operations \<open>acquire() \<rightarrow> port\<close>
  and \<open>release(port)\<close>, and section 7 the refusal when it is out of ports.
\<close>

definition getPort :: "Externals \<Rightarrow> Session \<Rightarrow> Session \<times> (error + nat)" where
  "getPort ext s =
     (if availablePorts s = {} then (s, Inl (errors_New ''no free port''))
      else let port = pick_port ext (availablePorts s)
           in (s\<lparr>availablePorts := availablePorts s - {port}\<rparr>, Inr port))"

definition releasePort :: "Session \<Rightarrow> nat \<Rightarrow> Session" where
  "releasePort s port = s\<lparr>availablePorts := insert port (availablePorts s)\<rparr>"

text \<open>
  Modelled from the spec: \<open>newTorrent2\<close>, \<open>torrent.Close\<close>, \<open>Torrent.Start\<close>,
  \<open>resumer.Write\<close> and \<open>webseedsource.NewList\<close> are not among the sources. A torrent
  that was constructed is open until it is closed; the resume store of section 6
  (\<open>write(id, snapshot)\<close>) holds the value under the key when the write succeeds.
\<close>

definition newTorrent2 :: "Externals \<Rightarrow> Session \<Rightarrow> Torrent \<Rightarrow> Session \<times> (error + Torrent)" where
  "newTorrent2 ext s t =
     (case newTorrent2_error ext of
        Some err \<Rightarrow> (s, Inl err)
      | None \<Rightarrow> (s\<lparr>openTorrents := t_id t # openTorrents s\<rparr>, Inr t))"

definition torrent_Close :: "Session \<Rightarrow> Torrent \<Rightarrow> Session" where
  "torrent_Close s t = s\<lparr>openTorrents := remove1 (t_id t) (openTorrents s)\<rparr>"

definition Torrent_Start :: "Externals \<Rightarrow> Session \<Rightarrow> Torrent \<Rightarrow> Session \<times> error option" where
  "Torrent_Start ext s t =
     (case Start_error ext of
        Some err \<Rightarrow> (s, Some err)
      | None \<Rightarrow> (s\<lparr>started := t_id t # started s\<rparr>, None))"

definition resumer_Write :: "Externals \<Rightarrow> Session \<Rightarrow> string \<Rightarrow> Spec \<Rightarrow> Session \<times> error option" where
  "resumer_Write ext s key spec =
     (case resumer_Write_error ext of
        Some err \<Rightarrow> (s, Some err)
      | None \<Rightarrow> (s\<lparr>resumer := (resumer s)(key \<mapsto> spec)\<rparr>, None))"

definition webseedsource_NewList :: "string list \<Rightarrow> Source list" where
  "webseedsource_NewList urls = map (\<lambda>u. \<lparr>URL = u, Disabled = False\<rparr>) urls"

subsection \<open>The functions of \<open>session_add.go\<close>\<close>

text \<open>
  \<open>add\<close>: its deferred function releases the port when the named result \<open>err\<close> is
  set, which is the case on both error returns after \<open>getPort\<close>.
\<close>

definition add :: "Externals \<Rightarrow> Session \<Rightarrow> Session \<times> (error + string \<times> nat \<times> FileStorage)" where
  "add ext s =
     (case getPort ext s of
        (s1, Inl err) \<Rightarrow> (s1, Inl err)
      | (s1, Inr port) \<Rightarrow>
          (case uuid_NewV1 ext of
             Inl err \<Rightarrow> (releasePort s1 port, Inl err)
           | Inr u1 \<Rightarrow>
               let tid = base64_RawURLEncoding_EncodeToString u1;
                   dest = filepath_Join (filepath_Clean ext) [DataDir (config s1), tid]
               in (case filestorage_New ext dest of
                     Inl err \<Rightarrow> (releasePort s1 port, Inl err)
                   | Inr sto \<Rightarrow> (s1, Inr (tid, port, sto)))))"

definition insertTorrent :: "Session \<Rightarrow> Torrent \<Rightarrow> Session \<times> Torrent" where
  "insertTorrent s t =
     (let s1 = s\<lparr>torrents := (torrents s)(t_id t \<mapsto> t)\<rparr>;
          ih = t_infoHash t
      in (s1\<lparr>torrentsByInfoHash :=
               (torrentsByInfoHash s1)(ih := torrentsByInfoHash s1 ih @ [t])\<rparr>, t))"

text \<open>
  \<open>addTorrentStopped\<close>. The two deferred functions run on return when the variable
  \<open>err\<close> is set, the later one first: \<open>t.Close()\<close>, registered once the torrent is
  constructed, then \<open>s.releasePort(port)\<close>, registered once \<open>add\<close> has succeeded.
  The reader \<open>r\<close> is the list of the bytes it yields, and \<open>io.LimitReader\<close> cuts it
  to \<open>MaxTorrentSize\<close> bytes. The pointer to the webseed client of the session, stored
  in the torrent next to the webseed sources, is left out.
\<close>

definition addTorrentStopped :: "Externals \<Rightarrow> Session \<Rightarrow> byte list \<Rightarrow> Session \<times> (error + Torrent)" where
  "addTorrentStopped ext s r =
     (case metainfo_New ext (take (MaxTorrentSize (config s)) r) of
        Inl err \<Rightarrow> (s, Inl err)
      | Inr mi \<Rightarrow>
          (case add ext s of
             (s1, Inl err) \<Rightarrow> (s1, Inl err)
           | (s1, Inr (tid, port, sto)) \<Rightarrow>
               (case newTorrent2 ext s1
                       \<lparr>t_id = tid, t_addedAt = time_Now ext,
                        t_infoHash = Info_Hash (mi_Info mi), t_storage = sto,
                        t_name = Info_Name (mi_Info mi), t_port = port,
                        t_trackers = parseTrackers ext (mi_AnnounceList mi)
                                       (Info_IsPrivate (mi_Info mi)),
                        t_fixedPeers = [], t_info = Some (mi_Info mi), t_bitfield = None,
                        t_stats = \<lparr>st_BytesDownloaded = 0, st_BytesUploaded = 0,
                                   st_BytesWasted = 0, st_SeededFor = 0\<rparr>,
                        t_webseedSources = []\<rparr> of
                  (s2, Inl err) \<Rightarrow> (releasePort s2 port, Inl err)
                | (s2, Inr t0) \<Rightarrow>
                    let t = t0\<lparr>t_webseedSources := webseedsource_NewList (mi_URLList mi)\<rparr>;
                        s3 = s2\<lparr>goroutines := goroutines s2 @ [t_id t]\<rparr>;
                        rspec = \<lparr>rs_InfoHash = Info_Hash (mi_Info mi), rs_Dest = fs_Dest sto,
                                 rs_Port = port, rs_Name = Info_Name (mi_Info mi),
                                 rs_Trackers = mi_AnnounceList mi, rs_URLList = mi_URLList mi,
                                 rs_FixedPeers = [], rs_Info = Info_Bytes (mi_Info mi),
                                 rs_AddedAt = t_addedAt t\<rparr>
                    in (case resumer_Write ext s3 tid rspec of
                          (s4, Some err) \<Rightarrow> (releasePort (torrent_Close s4 t) port, Inl err)
                        | (s4, None) \<Rightarrow>
                            (case insertTorrent s4 t of (s5, t2) \<Rightarrow> (s5, Inr t2))))))"

text \<open>
  \<open>AddTorrent\<close> returns the pair \<open>(t, err)\<close>: no torrent and the error when
  \<open>addTorrentStopped\<close> fails, else the torrent and what \<open>Start\<close> returned.
\<close>

definition AddTorrent ::
    "Externals \<Rightarrow> Session \<Rightarrow> byte list \<Rightarrow> AddTorrentOptions option
       \<Rightarrow> Session \<times> Torrent option \<times> error option" where
  "AddTorrent ext s r opt =
     (case addTorrentStopped ext s r of
        (s1, Inl err) \<Rightarrow> (s1, None, Some err)
      | (s1, Inr t) \<Rightarrow>
          if (case opt of None \<Rightarrow> True | Some opts \<Rightarrow> \<not> Stopped opts)
          then (case Torrent_Start ext s1 t of (s2, err) \<Rightarrow> (s2, Some t, err))
          else (s1, Some t, None))"

text \<open>
  \<open>addMagnet\<close>. The assignment \<open>err = t2.Start()\<close> is to the variable the deferred
  functions test, so they also run when \<open>Start\<close> fails.
\<close>

definition addMagnet ::
    "Externals \<Rightarrow> Session \<Rightarrow> string \<Rightarrow> AddTorrentOptions option
       \<Rightarrow> Session \<times> Torrent option \<times> error option" where
  "addMagnet ext s link opt =
     (case magnet_New ext link of
        Inl err \<Rightarrow> (s, None, Some err)
      | Inr ma \<Rightarrow>
          (case add ext s of
             (s1, Inl err) \<Rightarrow> (s1, None, Some err)
           | (s1, Inr (tid, port, sto)) \<Rightarrow>
               (case newTorrent2 ext s1
                       \<lparr>t_id = tid, t_addedAt = time_Now ext,
                        t_infoHash = ma_InfoHash ma, t_storage = sto,
                        t_name = ma_Name ma, t_port = port,
                        t_trackers = parseTrackers ext (ma_Trackers ma) False,
                        t_fixedPeers = ma_Peers ma, t_info = None, t_bitfield = None,
                        t_stats = \<lparr>st_BytesDownloaded = 0, st_BytesUploaded = 0,
                                   st_BytesWasted = 0, st_SeededFor = 0\<rparr>,
                        t_webseedSources = []\<rparr> of
                  (s2, Inl err) \<Rightarrow> (releasePort s2 port, None, Some err)
                | (s2, Inr t) \<Rightarrow>
                    let s3 = s2\<lparr>goroutines := goroutines s2 @ [t_id t]\<rparr>;
                        rspec = \<lparr>rs_InfoHash = ma_InfoHash ma, rs_Dest = fs_Dest sto,
                                 rs_Port = port, rs_Name = ma_Name ma,
                                 rs_Trackers = ma_Trackers ma, rs_URLList = [],
                                 rs_FixedPeers = ma_Peers ma, rs_Info = [],
                                 rs_AddedAt = t_addedAt t\<rparr>
                    in (case resumer_Write ext s3 tid rspec of
                          (s4, Some err) \<Rightarrow>
                            (releasePort (torrent_Close s4 t) port, None, Some err)
                        | (s4, None) \<Rightarrow>
                            (case insertTorrent s4 t of
                               (s5, t2) \<Rightarrow>
                                 if (case opt of None \<Rightarrow> True | Some opts \<Rightarrow> \<not> Stopped opts)
                                 then (case Torrent_Start ext s5 t2 of
                                         (s6, Some err) \<Rightarrow>
                                           (releasePort (torrent_Close s6 t) port, Some t2, Some err)
                                       | (s6, None) \<Rightarrow> (s6, Some t2, None))
                                 else (s5, Some t2, None))))))"

section \<open>Properties of the webseed handler\<close>

text \<open>
  Claim C1, as amended. A webseed piece result without an error that arrives for a piece
  index whose piece is already \<open>Writing\<close> is not discarded: the handler first adds the
  length of the buffer to \<open>BytesDownloaded\<close> and to the speed meter and then panics
  ("piece is already writing"). No piece changes state, neither intake changes, and no
  second piece writer is started.
\<close>

theorem webseed_result_while_writing_panics:
  assumes "Error msg = None" and "Index msg < length (pieces t)"
    and "Writing (pieces t ! Index msg)"
  shows "handleWebseedPieceResult t msg =
           Inl (PieceIsAlreadyWriting,
                t\<lparr>BytesDownloaded := BytesDownloaded t + of_nat (length (Buffer_Data msg)),
                  downloadSpeed := downloadSpeed t @ [of_nat (length (Buffer_Data msg))]\<rparr>)
         \<and> pieces (torrent_after (handleWebseedPieceResult t msg)) = pieces t
         \<and> writers_started (trace (torrent_after (handleWebseedPieceResult t msg)))
             = writers_started (trace t)"
  using assms by (simp add: handleWebseedPieceResult_def Let_def)

theorem webseed_result_while_writing_panics_witness:
  "handleWebseedPieceResult
     \<lparr>pieces = [\<lparr>Writing = False\<rparr>, \<lparr>Writing = True\<rparr>], BytesDownloaded = 7, downloadSpeed = [7],
      pieceMessagesC = Suspended, webseedPieceResultC = Suspended,
      webseedSources = [], trace = [GoPieceWriterRun \<lparr>pw_Piece = 1, pw_Source = ''u'', pw_Buffer = []\<rparr>]\<rparr>
     \<lparr>Error = None, Index = 1, Buffer_Data = [9, 9], Downloader = ''u''\<rparr>
   = Inl (PieceIsAlreadyWriting,
     \<lparr>pieces = [\<lparr>Writing = False\<rparr>, \<lparr>Writing = True\<rparr>], BytesDownloaded = 9, downloadSpeed = [7, 2],
      pieceMessagesC = Suspended, webseedPieceResultC = Suspended,
      webseedSources = [], trace = [GoPieceWriterRun \<lparr>pw_Piece = 1, pw_Source = ''u'', pw_Buffer = []\<rparr>]\<rparr>)"
  using webseed_result_while_writing_panics
    [of "\<lparr>Error = None, Index = 1, Buffer_Data = [9, 9], Downloader = ''u''\<rparr>"
        "\<lparr>pieces = [\<lparr>Writing = False\<rparr>, \<lparr>Writing = True\<rparr>], BytesDownloaded = 7, downloadSpeed = [7],
      pieceMessagesC = Suspended, webseedPieceResultC = Suspended,
      webseedSources = [], trace = [GoPieceWriterRun \<lparr>pw_Piece = 1, pw_Source = ''u'', pw_Buffer = []\<rparr>]\<rparr>"]
  by simp

text \<open>
  Claim C1 as stated fails: with piece 0 already \<open>Writing\<close>, a result for piece 0 ends
  the handler in a panic, and \<open>BytesDownloaded\<close> has moved from 0 to 3.
\<close>

theorem webseed_result_while_writing_panics_counterexample:
  "handleWebseedPieceResult
     \<lparr>pieces = [\<lparr>Writing = True\<rparr>], BytesDownloaded = 0, downloadSpeed = [],
      pieceMessagesC = Suspended, webseedPieceResultC = Suspended,
      webseedSources = [], trace = []\<rparr>
     \<lparr>Error = None, Index = 0, Buffer_Data = [1, 2, 3], Downloader = ''http://seed/f''\<rparr>
   = Inl (PieceIsAlreadyWriting,
     \<lparr>pieces = [\<lparr>Writing = True\<rparr>], BytesDownloaded = 3, downloadSpeed = [3],
      pieceMessagesC = Suspended, webseedPieceResultC = Suspended,
      webseedSources = [], trace = []\<rparr>)"
  by (simp add: handleWebseedPieceResult_def)

text \<open>
  Claim C2, evaluated on the code. A webseed piece result carrying an error is logged and
  nothing else happens (the source says \<open>TODO handle error\<close>): the source of the URL is
  not marked disabled and no piece changes state.
\<close>

theorem webseed_error_only_logged:
  "handleWebseedPieceResult
     \<lparr>pieces = [\<lparr>Writing = False\<rparr>], BytesDownloaded = 0, downloadSpeed = [],
      pieceMessagesC = Receiving, webseedPieceResultC = Receiving,
      webseedSources = [\<lparr>URL = ''http://seed/f'', Disabled = False\<rparr>], trace = []\<rparr>
     \<lparr>Error = Some ''unexpected status code'', Index = 0, Buffer_Data = [],
      Downloader = ''http://seed/f''\<rparr>
   = Inr
     \<lparr>pieces = [\<lparr>Writing = False\<rparr>], BytesDownloaded = 0, downloadSpeed = [],
      pieceMessagesC = Receiving, webseedPieceResultC = Receiving,
      webseedSources = [\<lparr>URL = ''http://seed/f'', Disabled = False\<rparr>],
      trace = [LogError ''webseed download error:'' ''unexpected status code'']\<rparr>"
  by (simp add: handleWebseedPieceResult_def)



text \<open>
  Claim C4, as amended. \<open>BytesDownloaded\<close> grows by the length of the buffer when a
  webseed piece result without an error (for a piece index in range) reaches the handler,
  that is before the piece writer, and with it the hash verification, has run; a result
  carrying an error leaves the counter as it was.
\<close>

theorem bytes_counted_on_arrival:
  "BytesDownloaded (torrent_after (handleWebseedPieceResult t msg)) =
     (if Error msg = None \<and> Index msg < length (pieces t)
      then BytesDownloaded t + of_nat (length (Buffer_Data msg))
      else BytesDownloaded t)"
  by (simp add: handleWebseedPieceResult_def Let_def split: option.splits)

theorem bytes_counted_on_arrival_witness:
  "BytesDownloaded (torrent_after (handleWebseedPieceResult
     \<lparr>pieces = [\<lparr>Writing = True\<rparr>], BytesDownloaded = 10, downloadSpeed = [],
      pieceMessagesC = Suspended, webseedPieceResultC = Suspended,
      webseedSources = [], trace = []\<rparr>
     \<lparr>Error = None, Index = 0, Buffer_Data = [255, 255], Downloader = ''u''\<rparr>)) = 12"
  using bytes_counted_on_arrival
    [of "\<lparr>pieces = [\<lparr>Writing = True\<rparr>], BytesDownloaded = 10, downloadSpeed = [],
      pieceMessagesC = Suspended, webseedPieceResultC = Suspended,
      webseedSources = [], trace = []\<rparr>"
      "\<lparr>Error = None, Index = 0, Buffer_Data = [255, 255], Downloader = ''u''\<rparr>"]
  by simp

text \<open>
  Claim C4 as stated fails: four bytes that no hash has been computed over are counted
  as downloaded at the moment the writer is started.
\<close>

theorem bytes_counted_before_verification_counterexample:
  "handleWebseedPieceResult
     \<lparr>pieces = [\<lparr>Writing = False\<rparr>], BytesDownloaded = 0, downloadSpeed = [],
      pieceMessagesC = Receiving, webseedPieceResultC = Receiving,
      webseedSources = [], trace = []\<rparr>
     \<lparr>Error = None, Index = 0, Buffer_Data = [255, 255, 255, 255],
      Downloader = ''http://seed/f''\<rparr>
   = Inr
     \<lparr>pieces = [\<lparr>Writing = True\<rparr>], BytesDownloaded = 4, downloadSpeed = [4],
      pieceMessagesC = Suspended, webseedPieceResultC = Suspended,
      webseedSources = [],
      trace = [Suspend PieceMessagesC, Suspend WebseedPieceResultC,
               GoPieceWriterRun \<lparr>pw_Piece = 0, pw_Source = ''http://seed/f'',
                                 pw_Buffer = [255, 255, 255, 255]\<rparr>]\<rparr>"
  by (simp add: handleWebseedPieceResult_def piecewriter_New_def)

section \<open>Properties of the handshake\<close>

subsection \<open>Reading from a connection\<close>

text \<open>
  A read of \<open>n\<close> bytes succeeds exactly when \<open>n\<close> bytes are pending and arrive in
  time; it then leaves the connection \<open>received c n\<close>.
\<close>

lemma fold_max_le:
  "fold max (map fst xs) (k::nat) \<le> d \<longleftrightarrow> k \<le> d \<and> (\<forall>p\<in>set xs. fst p \<le> d)"
  by (induction xs arbitrary: k) auto

lemma received_0: "received c 0 = c"
  by (simp add: received_def)

lemma received_add: "received (received c n) m = received c (n + m)"
  by (simp add: received_def take_add[of n m] add.commute[of m n])

lemma in_time_iff:
  "in_time c n \<longleftrightarrow>
     (\<forall>d. deadline c = Some d \<longrightarrow> (\<forall>p\<in>set (take n (rx c)). clock c \<le> d \<and> fst p \<le> d))"
  by (cases "deadline c") (auto simp: in_time_def list_all_iff)

lemma in_time_add: "in_time c (n + m) \<longleftrightarrow> in_time c n \<and> in_time (received c n) m"
proof (cases "deadline c")
  case None
  then show ?thesis by (simp add: in_time_def received_def)
next
  case (Some d)
  have rc: "deadline (received c n) = Some d" "rx (received c n) = drop n (rx c)"
    "clock (received c n) = fold max (map fst (take n (rx c))) (clock c)"
    using Some by (simp_all add: received_def)
  show ?thesis
    unfolding in_time_iff rc Some take_add[of n m] fold_max_le
    by auto
qed

lemma in_time_0: "in_time c 0"
  by (simp add: in_time_def split: option.splits)

lemma received_fields:
  "rx (received c n) = drop n (rx c)" "tx (received c n) = tx c"
  "deadline (received c n) = deadline c" "rx_close (received c n) = rx_close c"
  "tx_error (received c n) = tx_error c" "deadline_error (received c n) = deadline_error c"
  "is_closed (received c n) = is_closed c"
  by (simp_all add: received_def)

lemma conn_Read1_Inr:
  "conn_Read1 c = Some (c', Inr b) \<longleftrightarrow>
     1 \<le> length (rx c) \<and> in_time c 1 \<and> c' = received c 1 \<and> b = snd (hd (rx c))"
proof (cases "rx c")
  case Nil
  then show ?thesis
    by (simp add: conn_Read1_def await_def split: option.splits sum.splits)
next
  case (Cons p rest)
  obtain a x where p: "p = (a, x)" by (cases p)
  show ?thesis
  proof (cases "deadline c")
    case None
    then show ?thesis using Cons p
      by (auto simp: conn_Read1_def await_def in_time_def received_def)
  next
    case (Some d)
    then show ?thesis using Cons p
      by (auto simp: conn_Read1_def await_def in_time_def received_def)
  qed
qed

lemma read_loop_Inr:
  "read_loop n c buf = Some (c', Inr bs) \<longleftrightarrow>
     n \<le> length (rx c) \<and> in_time c n \<and> c' = received c n \<and>
     bs = buf @ map snd (take n (rx c))"
proof (induction n arbitrary: c buf)
  case 0
  show ?case by (auto simp: received_0 in_time_0)
next
  case (Suc n)
  show ?case
  proof (cases "conn_Read1 c")
    case None
    then have "\<not> (1 \<le> length (rx c) \<and> in_time c 1)"
      using conn_Read1_Inr[of c "received c 1" "snd (hd (rx c))"] by simp
    then show ?thesis using None in_time_add[of c 1 n] by auto
  next
    case (Some r)
    obtain c1 res where r: "r = (c1, res)" by (cases r)
    show ?thesis
    proof (cases res)
      case (Inl e)
      then have "\<not> (1 \<le> length (rx c) \<and> in_time c 1)"
        using conn_Read1_Inr[of c "received c 1" "snd (hd (rx c))"] Some r by simp
      then show ?thesis using Some r Inl in_time_add[of c 1 n] by auto
    next
      case (Inr b)
      then have h: "1 \<le> length (rx c)" "in_time c 1" "c1 = received c 1" "b = snd (hd (rx c))"
        using conn_Read1_Inr[of c c1 b] Some r by simp_all
      from h(1) obtain p rest where rx: "rx c = p # rest" by (cases "rx c") auto
      have rxr: "rx (received c (Suc 0)) = rest" using rx by (simp add: received_def)
      have "read_loop (Suc n) c buf = read_loop n (received c 1) (buf @ [b])"
        using Some r Inr h by simp
      then show ?thesis
        using Suc.IH[of "received c 1" "buf @ [b]" ] h rx rxr in_time_add[of c 1 n]
        by (auto simp: received_add)
    qed
  qed
qed

lemma io_ReadFull_Inr:
  "io_ReadFull c n = Some (c', Inr bs) \<longleftrightarrow>
     n \<le> length (rx c) \<and> in_time c n \<and> c' = received c n \<and> bs = map snd (take n (rx c))"
  by (simp add: io_ReadFull_def read_loop_Inr)

lemma io_CopyN_Discard_Inr:
  "io_CopyN_Discard c n = Some (c', Inr u) \<longleftrightarrow>
     n \<le> length (rx c) \<and> in_time c n \<and> c' = received c n"
proof (induction n arbitrary: c)
  case 0
  show ?case by (auto simp: received_0 in_time_0)
next
  case (Suc n)
  show ?case
  proof (cases "conn_Read1 c")
    case None
    then have "\<not> (1 \<le> length (rx c) \<and> in_time c 1)"
      using conn_Read1_Inr[of c "received c 1" "snd (hd (rx c))"] by simp
    then show ?thesis using None in_time_add[of c 1 n] by auto
  next
    case (Some r)
    obtain c1 res where r: "r = (c1, res)" by (cases r)
    show ?thesis
    proof (cases res)
      case (Inl e)
      then have "\<not> (1 \<le> length (rx c) \<and> in_time c 1)"
        using conn_Read1_Inr[of c "received c 1" "snd (hd (rx c))"] Some r by simp
      then show ?thesis using Some r Inl in_time_add[of c 1 n] by auto
    next
      case (Inr b)
      then have h: "1 \<le> length (rx c)" "in_time c 1" "c1 = received c 1"
        using conn_Read1_Inr[of c c1 b] Some r by simp_all
      from h(1) obtain p rest where rx: "rx c = p # rest" by (cases "rx c") auto
      have rxr: "rx (received c (Suc 0)) = rest" using rx by (simp add: received_def)
      have "io_CopyN_Discard c (Suc n) = io_CopyN_Discard (received c 1) n"
        using Some r Inr h by simp
      then show ?thesis
        using Suc.IH[of "received c 1"] h rx rxr in_time_add[of c 1 n]
        by (auto simp: received_add)
    qed
  qed
qed

lemma length_bitTorrent10pstr: "length bitTorrent10pstr = 19"
  by (simp add: bitTorrent10pstr_def bytes_of_def)

lemma take_20_split:
  "20 \<le> length xs \<Longrightarrow>
   map snd (take 20 xs) = snd (hd xs) # map snd (take 19 (drop 1 xs))"
  by (cases xs) (simp_all add: take_Cons')

lemma readHandShake_infoHash_Inr:
  "readHandShake_infoHash c = Some (c', Inr ih) \<longleftrightarrow>
     48 \<le> length (rx c) \<and> in_time c 48 \<and> c' = received c 48 \<and>
     map snd (take 20 (rx c)) = 19 # bitTorrent10pstr \<and>
     ih = map snd (take 20 (drop 28 (rx c)))"
  (is "?L \<longleftrightarrow> ?R")
proof
  assume ?L
  then obtain c1 c2 c3 u where
    s1: "conn_Read1 c = Some (c1, Inr 19)" and
    s2: "io_ReadFull c1 19 = Some (c2, Inr bitTorrent10pstr)" and
    s3: "io_CopyN_Discard c2 8 = Some (c3, Inr u)" and
    s4: "io_ReadFull c3 20 = Some (c', Inr ih)"
    by (auto simp: readHandShake_infoHash_def bitTorrent10pstrLen_def
             split: option.splits sum.splits if_splits prod.splits)
  from s1 have a1: "1 \<le> length (rx c)" "in_time c 1" "c1 = received c 1" "snd (hd (rx c)) = 19"
    by (simp_all add: conn_Read1_Inr)
  from s2 a1 have a2: "20 \<le> length (rx c)" "in_time (received c 1) 19" "c2 = received c 20"
      "map snd (take 19 (drop 1 (rx c))) = bitTorrent10pstr"
    by (auto simp: io_ReadFull_Inr received_add received_fields(1))
  from s3 a2 have a3: "28 \<le> length (rx c)" "in_time (received c 20) 8" "c3 = received c 28"
    by (auto simp: io_CopyN_Discard_Inr received_add received_fields(1))
  from s4 a3 have a4: "48 \<le> length (rx c)" "in_time (received c 28) 20" "c' = received c 48"
      "ih = map snd (take 20 (drop 28 (rx c)))"
    by (auto simp: io_ReadFull_Inr received_add received_fields(1))
  have "in_time c 48"
    using a1(2) a2(2) a3(2) a4(2) in_time_add[of c 1 19] in_time_add[of c 20 8]
      in_time_add[of c 28 20] by simp
  moreover have "map snd (take 20 (rx c)) = 19 # bitTorrent10pstr"
    using take_20_split[OF a2(1)] a1(4) a2(4) by simp
  ultimately show ?R using a4 by simp
next
  assume r: ?R
  then have len: "48 \<le> length (rx c)" and it: "in_time c 48" by simp_all
  have t: "in_time c 1" "in_time (received c 1) 19" "in_time (received c 20) 8"
      "in_time (received c 28) 20"
    using it in_time_add[of c 28 20] in_time_add[of c 20 8] in_time_add[of c 1 19] by simp_all
  have sp: "snd (hd (rx c)) = 19" "map snd (take 19 (drop 1 (rx c))) = bitTorrent10pstr"
    using r take_20_split[of "rx c"] by simp_all
  have s1: "conn_Read1 c = Some (received c (Suc 0), Inr 19)"
    using len t sp by (simp add: conn_Read1_Inr)
  have s2: "io_ReadFull (received c (Suc 0)) 19 = Some (received c 20, Inr bitTorrent10pstr)"
    using len t sp by (simp add: io_ReadFull_Inr received_add received_fields(1))
  have s3: "io_CopyN_Discard (received c 20) 8 = Some (received c 28, Inr ())"
    using len t by (simp add: io_CopyN_Discard_Inr received_add received_fields(1))
  have s4: "io_ReadFull (received c 28) 20 = Some (c', Inr ih)"
    using len t r by (auto simp: io_ReadFull_Inr received_add received_fields(1))
  show ?L
    by (simp add: readHandShake_infoHash_def bitTorrent10pstrLen_def s1 s2 s3 s4)
qed

lemma readHandShake_Inr:
  "readHandShake c notify = Some (c', sent, Inr pid) \<longleftrightarrow>
     68 \<le> length (rx c) \<and> in_time c 68 \<and> c' = received c 68 \<and>
     map snd (take 20 (rx c)) = 19 # bitTorrent10pstr \<and>
     sent = (if notify then Some (map snd (take 20 (drop 28 (rx c)))) else None) \<and>
     pid = map snd (take 20 (drop 48 (rx c)))"
  (is "?L \<longleftrightarrow> ?R")
proof
  assume ?L
  then obtain c1 ih where
    s1: "readHandShake_infoHash c = Some (c1, Inr ih)" and
    s2: "io_ReadFull c1 20 = Some (c', Inr pid)" and
    s3: "sent = (if notify then Some ih else None)"
    by (auto simp: readHandShake_def readHandShake_peerID_def
             split: option.splits sum.splits prod.splits)
  from s1 have a1: "48 \<le> length (rx c)" "in_time c 48" "c1 = received c 48"
      "map snd (take 20 (rx c)) = 19 # bitTorrent10pstr"
      "ih = map snd (take 20 (drop 28 (rx c)))"
    by (simp_all add: readHandShake_infoHash_Inr)
  from s2 a1 have a2: "68 \<le> length (rx c)" "in_time (received c 48) 20" "c' = received c 68"
      "pid = map snd (take 20 (drop 48 (rx c)))"
    by (auto simp: io_ReadFull_Inr received_add received_fields(1))
  have "in_time c 68" using a1(2) a2(2) in_time_add[of c 48 20] by simp
  then show ?R using a1 a2 s3 by simp
next
  assume r: ?R
  then have len: "68 \<le> length (rx c)" and it: "in_time c 68" by simp_all
  have t: "in_time c 48" "in_time (received c 48) 20"
    using it in_time_add[of c 48 20] by simp_all
  have s1: "readHandShake_infoHash c =
              Some (received c 48, Inr (map snd (take 20 (drop 28 (rx c)))))"
    using len t r by (simp add: readHandShake_infoHash_Inr)
  have s2: "io_ReadFull (received c 48) 20 = Some (c', Inr pid)"
    using len t r by (auto simp: io_ReadFull_Inr received_add received_fields(1))
  show ?L using r by (simp add: readHandShake_def readHandShake_peerID_def s1 s2)
qed

lemma bitTorrent10pstr_bytes:
  "bitTorrent10pstr = [66,105,116,84,111,114,114,101,110,116,32,112,114,111,116,111,99,111,108]"
  by (simp add: bitTorrent10pstr_def bytes_of_def)

lemma handShake_bytes:
  "copy_bytes (replicate 19 0) bitTorrent10pstr = bitTorrent10pstr"
  by (simp add: copy_bytes_def length_bitTorrent10pstr)

lemma sendHandShake_cases:
  "sendHandShake r conn ih =
     (case tx_error conn of
        Some e \<Rightarrow> (conn, Some e)
      | None \<Rightarrow>
          (case deadline conn of
             None \<Rightarrow> (conn\<lparr>tx := tx conn @ 19 # bitTorrent10pstr @ replicate 8 0 @ ih @ peerID r\<rparr>, None)
           | Some d \<Rightarrow>
               if d < clock conn then (conn, Some ErrIOTimeout)
               else (conn\<lparr>tx := tx conn @ 19 # bitTorrent10pstr @ replicate 8 0 @ ih @ peerID r\<rparr>, None)))"
  by (simp add: sendHandShake_def binary_Write_def conn_Write_def await_def Let_def
        bitTorrent10pstrLen_def handShake_bytes max_def split: option.splits)

lemma sendHandShake_rx:
  "sendHandShake r conn ih = (c1, e) \<Longrightarrow>
     rx c1 = rx conn \<and> clock c1 = clock conn \<and> deadline c1 = deadline conn \<and>
     rx_close c1 = rx_close conn \<and> is_closed c1 = is_closed conn \<and>
     deadline_error c1 = deadline_error conn"
  by (auto simp: sendHandShake_cases split: option.splits if_splits)

lemma readHandShake_infoHash_unexpected_pstrlen:
  assumes "1 \<le> length (rx c)" "in_time c 1" "snd (hd (rx c)) \<noteq> 19"
  shows "readHandShake_infoHash c = Some (received c 1, Inl (errors_New ''unexpected pstrlen''))"
proof -
  have "conn_Read1 c = Some (received c 1, Inr (snd (hd (rx c))))"
    using assms by (simp add: conn_Read1_Inr)
  then show ?thesis using assms(3)
    by (simp add: readHandShake_infoHash_def bitTorrent10pstrLen_def)
qed

lemma readHandShake_infoHash_unexpected_pstr:
  assumes "20 \<le> length (rx c)" "in_time c 20" "snd (hd (rx c)) = 19"
    "map snd (take 19 (drop 1 (rx c))) \<noteq> bitTorrent10pstr"
  shows "readHandShake_infoHash c = Some (received c 20, Inl (errors_New ''unexpected pstr''))"
proof -
  have t: "in_time c 1" "in_time (received c 1) 19"
    using assms(2) in_time_add[of c 1 19] by simp_all
  have s1: "conn_Read1 c = Some (received c (Suc 0), Inr 19)"
    using assms t by (simp add: conn_Read1_Inr)
  have s2: "io_ReadFull (received c (Suc 0)) 19 =
              Some (received c 20, Inr (map snd (take 19 (drop 1 (rx c)))))"
    using assms t by (auto simp: io_ReadFull_Inr received_add received_fields(1))
  show ?thesis using assms(4)
    by (simp add: readHandShake_infoHash_def bitTorrent10pstrLen_def s1 s2)
qed

lemma in_time_fst:
  "in_time c n \<longleftrightarrow>
     (\<forall>d. deadline c = Some d \<longrightarrow> (\<forall>a\<in>set (map fst (take n (rx c))). clock c \<le> d \<and> a \<le> d))"
  unfolding in_time_iff by auto

lemma fold_max_const:
  "fold max (map fst (map (Pair t) bs)) (k::nat) = (if bs = [] then k else max t k)"
  by (induction bs arbitrary: k) (auto simp: max_def)

lemma received_uniform:
  assumes "rx c = map (Pair t) bs" and "0 < n" and "n \<le> length bs"
  shows "received c n = c\<lparr>rx := map (Pair t) (drop n bs), clock := max t (clock c)\<rparr>"
proof -
  have "take n bs \<noteq> []" using assms(2,3) by auto
  then have "fold max (map fst (take n (rx c))) (clock c) = max t (clock c)"
    unfolding assms(1) take_map fold_max_const by simp
  then show ?thesis unfolding received_def by (simp add: assms(1) drop_map)
qed

lemma in_time_uniform:
  assumes "rx c = map (Pair t) bs" and "\<forall>d. deadline c = Some d \<longrightarrow> clock c \<le> d \<and> t \<le> d"
  shows "in_time c n"
  unfolding in_time_iff using assms by (auto simp: take_map)

lemma readHandShake_uniform:
  assumes "rx c = map (Pair t) (19 # bitTorrent10pstr @ res @ ih @ pid @ rest)"
    and "length res = 8" and "length ih = 20" and "length pid = 20"
    and "\<forall>d. deadline c = Some d \<longrightarrow> clock c \<le> d \<and> t \<le> d"
  shows "readHandShake c notify =
           Some (c\<lparr>rx := map (Pair t) rest, clock := max t (clock c)\<rparr>,
                 if notify then Some ih else None, Inr pid)"
proof -
  let ?bs = "19 # bitTorrent10pstr @ res @ ih @ pid @ rest"
  have l: "68 \<le> length ?bs" using assms by (simp add: length_bitTorrent10pstr)
  have r: "received c 68 = c\<lparr>rx := map (Pair t) rest, clock := max t (clock c)\<rparr>"
    using received_uniform[OF assms(1) _ l] assms(2-4)
    by (simp add: length_bitTorrent10pstr)
  have "readHandShake c notify =
          Some (received c 68, if notify then Some ih else None, Inr pid)"
    unfolding readHandShake_Inr
    using assms in_time_uniform[OF assms(1,5)]
    by (simp add: length_bitTorrent10pstr take_map drop_map comp_def)
  then show ?thesis using r by simp
qed

lemma conn_Read1_deadline:
  assumes "deadline c = Some d"
  shows "\<exists>c' res. conn_Read1 c = Some (c', res) \<and> deadline c' = Some d"
proof (cases "rx c")
  case Nil
  then show ?thesis using assms
    by (cases "rx_close c") (auto simp: conn_Read1_def await_def)
next
  case (Cons p rest)
  obtain a x where "p = (a, x)" by (cases p)
  then show ?thesis using assms Cons
    by (auto simp: conn_Read1_def await_def)
qed

lemma read_loop_deadline:
  "deadline c = Some d \<Longrightarrow>
   \<exists>c' res. read_loop n c buf = Some (c', res) \<and> deadline c' = Some d"
proof (induction n arbitrary: c buf)
  case 0
  then show ?case by simp
next
  case (Suc n)
  from conn_Read1_deadline[OF Suc.prems] obtain c1 res1
    where r: "conn_Read1 c = Some (c1, res1)" and d: "deadline c1 = Some d" by blast
  show ?case
  proof (cases res1)
    case (Inl e)
    then show ?thesis using r d by simp
  next
    case (Inr b)
    then show ?thesis using r Suc.IH[OF d, of "buf @ [b]"] by simp
  qed
qed

lemma io_CopyN_Discard_deadline:
  "deadline c = Some d \<Longrightarrow>
   \<exists>c' res. io_CopyN_Discard c n = Some (c', res) \<and> deadline c' = Some d"
proof (induction n arbitrary: c)
  case 0
  then show ?case by simp
next
  case (Suc n)
  from conn_Read1_deadline[OF Suc.prems] obtain c1 res1
    where r: "conn_Read1 c = Some (c1, res1)" and d: "deadline c1 = Some d" by blast
  show ?case
  proof (cases res1)
    case (Inl e)
    then show ?thesis using r d by simp
  next
    case (Inr b)
    then show ?thesis using r Suc.IH[OF d] by simp
  qed
qed

lemma readHandShake_infoHash_deadline:
  assumes "deadline c = Some d"
  shows "\<exists>c' res. readHandShake_infoHash c = Some (c', res) \<and> deadline c' = Some d"
proof -
  from conn_Read1_deadline[OF assms] obtain c1 r1
    where s1: "conn_Read1 c = Some (c1, r1)" and d1: "deadline c1 = Some d" by blast
  from read_loop_deadline[OF d1, of 19 "[]"] obtain c2 r2
    where s2: "io_ReadFull c1 19 = Some (c2, r2)" and d2: "deadline c2 = Some d"
    unfolding io_ReadFull_def by blast
  from io_CopyN_Discard_deadline[OF d2, of 8] obtain c3 r3
    where s3: "io_CopyN_Discard c2 8 = Some (c3, r3)" and d3: "deadline c3 = Some d" by blast
  from read_loop_deadline[OF d3, of 20 "[]"] obtain c4 r4
    where s4: "io_ReadFull c3 20 = Some (c4, r4)" and d4: "deadline c4 = Some d"
    unfolding io_ReadFull_def by blast
  show ?thesis
    using s1 s2 s3 s4 d1 d2 d3 d4
    by (auto simp: readHandShake_infoHash_def bitTorrent10pstrLen_def split: sum.splits)
qed

subsection \<open>The minute given to the handshake\<close>

text \<open>
  An accepted connection: \<open>servePeerConn\<close> always returns, with the connection closed,
  and it reaches \<open>communicateWithPeer\<close> only if all 68 bytes of the peer's handshake
  arrived within a minute of the call.
\<close>

lemma servePeerConn_gives_a_minute:
  "\<exists>c' e. servePeerConn r conn = Some (c', e) \<and> is_closed c' \<and>
     (e = Communicated \<longrightarrow>
        68 \<le> length (rx conn) \<and>
        (\<forall>p\<in>set (take 68 (rx conn)). fst p \<le> clock conn + time_Minute))"
proof (cases "deadline_error conn")
  case (Some e)
  then show ?thesis
    by (simp add: servePeerConn_def conn_SetDeadline_def conn_Close_def)
next
  case None
  define c0 where "c0 = conn\<lparr>deadline := Some (clock conn + time_Minute)\<rparr>"
  have sd: "conn_SetDeadline conn (Some (clock conn + time_Minute)) = (c0, None)"
    using None by (simp add: conn_SetDeadline_def c0_def)
  have d0: "deadline c0 = Some (clock conn + time_Minute)" by (simp add: c0_def)
  from readHandShake_infoHash_deadline[OF d0] obtain c1 r1
    where s1: "readHandShake_infoHash c0 = Some (c1, r1)"
      and d1: "deadline c1 = Some (clock conn + time_Minute)" by blast
  show ?thesis
  proof (cases r1)
    case (Inl err)
    then show ?thesis using sd s1 by (simp add: servePeerConn_def conn_Close_def)
  next
    case (Inr ih)
    then have a1: "48 \<le> length (rx c0)" "in_time c0 48" "c1 = received c0 48"
      using s1 by (simp_all add: readHandShake_infoHash_Inr)
    obtain c2 e2 where s2: "sendHandShake r c1 ih = (c2, e2)" by (cases "sendHandShake r c1 ih")
    have f2: "rx c2 = rx c1" "clock c2 = clock c1" "deadline c2 = deadline c1"
      using sendHandShake_rx[OF s2] by simp_all
    show ?thesis
    proof (cases e2)
      case (Some err)
      then show ?thesis using sd s1 Inr s2 by (simp add: servePeerConn_def conn_Close_def)
    next
      case None
      from read_loop_deadline[of c2 "clock conn + time_Minute" 20 "[]"] f2 d1 obtain c3 r3
        where s3: "readHandShake_peerID c2 = Some (c3, r3)"
        unfolding readHandShake_peerID_def io_ReadFull_def by auto
      show ?thesis
      proof (cases r3)
        case (Inl err)
        then show ?thesis using sd s1 Inr s2 None s3
          by (simp add: servePeerConn_def conn_Close_def)
      next
        case pid: (Inr pid)
        then have a3: "20 \<le> length (rx c2)" "in_time c2 20"
          using s3 by (simp_all add: readHandShake_peerID_def io_ReadFull_Inr)
        have "in_time c2 20 = in_time c1 20" using f2 by (simp add: in_time_iff)
        then have "in_time c0 68" using a1 a3 in_time_add[of c0 48 20] by simp
        moreover have "68 \<le> length (rx c0)" using a1 a3 f2 by (simp add: received_fields(1))
        ultimately have "68 \<le> length (rx conn) \<and>
            (\<forall>p\<in>set (take 68 (rx conn)). fst p \<le> clock conn + time_Minute)"
          unfolding in_time_iff c0_def by simp
        then show ?thesis using sd s1 Inr s2 None s3 pid
          by (simp add: servePeerConn_def conn_Close_def)
      qed
    qed
  qed
qed

lemma servePeerConn_late_handshake:
  "servePeerConn \<lparr>peerID = replicate 20 2\<rparr>
     \<lparr>rx = map (Pair (3600 * 1000000000))
                 (19 # bitTorrent10pstr @ replicate 8 0 @ replicate 20 1 @ replicate 20 3),
      rx_close = None, tx = [], tx_error = None, clock = 0, deadline = None,
      deadline_error = None, is_closed = False\<rparr>
   = Some (\<lparr>rx = map (Pair (3600 * 1000000000))
                 (19 # bitTorrent10pstr @ replicate 8 0 @ replicate 20 1 @ replicate 20 3),
      rx_close = None, tx = [], tx_error = None, clock = time_Minute,
      deadline = Some time_Minute, deadline_error = None, is_closed = True\<rparr>,
      Abandoned (Because ErrIOTimeout))"
  by (simp add: servePeerConn_def conn_SetDeadline_def readHandShake_infoHash_def
        conn_Read1_def await_def time_Minute_def conn_Close_def)

text \<open>
  Claim C5, evaluated on the code for a dialled connection. \<open>connectToPeer\<close> sets no
  deadline: a peer whose handshake arrives an hour after the connection was made has
  its handshake accepted and is handed to \<open>communicateWithPeer\<close>, and with a peer
  that stays silent \<open>connectToPeer\<close> never returns, so the connection is never
  dropped. The claim holds for accepted connections only, where \<open>servePeerConn\<close>
  sets the deadline.
\<close>

theorem connectToPeer_sets_no_deadline:
  "connectToPeer \<lparr>peerID = replicate 20 2\<rparr>
     (Inr \<lparr>rx = map (Pair (3600 * 1000000000))
                 (19 # bitTorrent10pstr @ replicate 8 0 @ replicate 20 1 @ replicate 20 3),
           rx_close = None, tx = [], tx_error = None, clock = 0, deadline = None,
           deadline_error = None, is_closed = False\<rparr>)
     (replicate 20 1)
   = Some (Some \<lparr>rx = [], rx_close = None,
                 tx = 19 # bitTorrent10pstr @ replicate 8 0 @ replicate 20 1 @ replicate 20 2,
                 tx_error = None, clock = 3600 * 1000000000, deadline = None,
                 deadline_error = None, is_closed = False\<rparr>, Communicated)
   \<and> connectToPeer \<lparr>peerID = replicate 20 2\<rparr>
     (Inr \<lparr>rx = [], rx_close = None, tx = [], tx_error = None, clock = 0, deadline = None,
           deadline_error = None, is_closed = False\<rparr>)
     (replicate 20 1)
   = None"
proof -
  have "readHandShake
          \<lparr>rx = map (Pair (3600 * 1000000000))
                 (19 # bitTorrent10pstr @ replicate 8 0 @ replicate 20 1 @ replicate 20 3 @ []),
           rx_close = None,
           tx = 19 # bitTorrent10pstr @ replicate 8 0 @ replicate 20 1 @ replicate 20 2,
           tx_error = None, clock = 0, deadline = None,
           deadline_error = None, is_closed = False\<rparr> True
        = Some (\<lparr>rx = [], rx_close = None,
           tx = 19 # bitTorrent10pstr @ replicate 8 0 @ replicate 20 1 @ replicate 20 2,
           tx_error = None, clock = 3600 * 1000000000, deadline = None,
           deadline_error = None, is_closed = False\<rparr>, Some (replicate 20 1), Inr (replicate 20 3))"
    by (subst readHandShake_uniform[where t = "3600 * 1000000000" and res = "replicate 8 0"
          and ih = "replicate 20 1" and pid = "replicate 20 3" and rest = "[]"]) simp_all
  then show ?thesis
    by (simp add: connectToPeer_def sendHandShake_cases communicateWithPeer_def
          conn_SetDeadline_def time_Minute_def readHandShake_def
          readHandShake_infoHash_def conn_Read1_def)
qed

text \<open>
  Claim C6. The handshake written by \<open>sendHandShake\<close> is the byte 19, the 19 bytes of
  "BitTorrent protocol", 8 reserved bytes (all zero), the info hash and the peer id, in
  this order: 68 bytes when info hash and peer id have 20 bytes each. Reading a
  handshake whose first byte is not 19 ends with the error "unexpected pstrlen" after
  this one byte; reading one whose next 19 bytes are not the protocol string ends with
  the error "unexpected pstr" after these 20 bytes; what follows on the connection is
  not read. A handshake is accepted only if it starts with 19 and the protocol string.
\<close>

theorem handshake_format_and_rejection:
  "(\<forall>c'. sendHandShake r conn ih = (c', None) \<longrightarrow>
      tx c' = tx conn @ [19] @ bytes_of ''BitTorrent protocol'' @ replicate 8 0 @ ih @ peerID r
      \<and> (length ih = 20 \<and> length (peerID r) = 20 \<longrightarrow> length (tx c') = length (tx conn) + 68))
   \<and> (1 \<le> length (rx c) \<and> in_time c 1 \<and> snd (hd (rx c)) \<noteq> 19 \<longrightarrow>
        (\<exists>c'. readHandShake c notify = Some (c', None, Inl (errors_New ''unexpected pstrlen''))
           \<and> rx c' = drop 1 (rx c)))
   \<and> (20 \<le> length (rx c) \<and> in_time c 20 \<and> snd (hd (rx c)) = 19
        \<and> map snd (take 19 (drop 1 (rx c))) \<noteq> bytes_of ''BitTorrent protocol'' \<longrightarrow>
        (\<exists>c'. readHandShake c notify = Some (c', None, Inl (errors_New ''unexpected pstr''))
           \<and> rx c' = drop 20 (rx c)))
   \<and> (\<forall>c' sent pid. readHandShake c notify = Some (c', sent, Inr pid) \<longrightarrow>
        map snd (take 20 (rx c)) = 19 # bytes_of ''BitTorrent protocol'')"
proof (intro conjI allI impI)
  fix c' assume "sendHandShake r conn ih = (c', None)"
  then show t: "tx c' = tx conn @ [19] @ bytes_of ''BitTorrent protocol'' @ replicate 8 0 @ ih @ peerID r"
    by (auto simp: sendHandShake_cases bitTorrent10pstr_def split: option.splits if_splits)
  assume "length ih = 20 \<and> length (peerID r) = 20"
  then show "length (tx c') = length (tx conn) + 68"
    using t length_bitTorrent10pstr by (simp add: bitTorrent10pstr_def)
next
  assume "1 \<le> length (rx c) \<and> in_time c 1 \<and> snd (hd (rx c)) \<noteq> 19"
  then have "readHandShake_infoHash c = Some (received c 1, Inl (errors_New ''unexpected pstrlen''))"
    using readHandShake_infoHash_unexpected_pstrlen by simp
  then show "\<exists>c'. readHandShake c notify = Some (c', None, Inl (errors_New ''unexpected pstrlen''))
           \<and> rx c' = drop 1 (rx c)"
    by (simp add: readHandShake_def received_fields(1))
next
  assume "20 \<le> length (rx c) \<and> in_time c 20 \<and> snd (hd (rx c)) = 19
        \<and> map snd (take 19 (drop 1 (rx c))) \<noteq> bytes_of ''BitTorrent protocol''"
  then have "readHandShake_infoHash c = Some (received c 20, Inl (errors_New ''unexpected pstr''))"
    using readHandShake_infoHash_unexpected_pstr by (simp add: bitTorrent10pstr_def)
  then show "\<exists>c'. readHandShake c notify = Some (c', None, Inl (errors_New ''unexpected pstr''))
           \<and> rx c' = drop 20 (rx c)"
    by (simp add: readHandShake_def received_fields(1))
next
  fix c' sent pid assume "readHandShake c notify = Some (c', sent, Inr pid)"
  then show "map snd (take 20 (rx c)) = 19 # bytes_of ''BitTorrent protocol''"
    by (simp add: readHandShake_Inr bitTorrent10pstr_def)
qed

theorem handshake_format_and_rejection_witness:
  "tx (fst (sendHandShake \<lparr>peerID = replicate 20 2\<rparr>
         \<lparr>rx = [], rx_close = None, tx = [], tx_error = None, clock = 0, deadline = None,
          deadline_error = None, is_closed = False\<rparr> (replicate 20 1)))
     = [19] @ bytes_of ''BitTorrent protocol'' @ replicate 8 0 @ replicate 20 1 @ replicate 20 2
   \<and> length (tx (fst (sendHandShake \<lparr>peerID = replicate 20 2\<rparr>
         \<lparr>rx = [], rx_close = None, tx = [], tx_error = None, clock = 0, deadline = None,
          deadline_error = None, is_closed = False\<rparr> (replicate 20 1)))) = 68
   \<and> (\<exists>c'. readHandShake
          \<lparr>rx = [(5, 18), (5, 7)], rx_close = None, tx = [], tx_error = None, clock = 0,
           deadline = Some 60, deadline_error = None, is_closed = False\<rparr> True
        = Some (c', None, Inl (errors_New ''unexpected pstrlen'')) \<and> rx c' = [(5, 7)])
   \<and> (\<exists>c'. readHandShake
          \<lparr>rx = map (Pair 5) (19 # bytes_of ''BitTorrent protocoL'' @ [9]), rx_close = None,
           tx = [], tx_error = None, clock = 0,
           deadline = Some 60, deadline_error = None, is_closed = False\<rparr> True
        = Some (c', None, Inl (errors_New ''unexpected pstr'')) \<and> rx c' = [(5, 9)])
   \<and> readHandShake
          \<lparr>rx = map (Pair 5) (19 # bitTorrent10pstr @ replicate 8 0 @ replicate 20 1
                                   @ replicate 20 3 @ []),
           rx_close = None, tx = [], tx_error = None, clock = 0,
           deadline = Some 60, deadline_error = None, is_closed = False\<rparr> True
        = Some (\<lparr>rx = [], rx_close = None, tx = [], tx_error = None, clock = 5,
                 deadline = Some 60, deadline_error = None, is_closed = False\<rparr>,
                Some (replicate 20 1), Inr (replicate 20 3))
   \<and> map snd (take 20 (map (Pair (5::nat)) (19 # bitTorrent10pstr @ replicate 8 0 @ replicate 20 1
                                   @ replicate 20 3 @ [])))
        = 19 # bytes_of ''BitTorrent protocol''"
proof -
  let ?r = "\<lparr>peerID = replicate 20 2\<rparr>"
  let ?c3 = "\<lparr>rx = map (Pair 5) (19 # bitTorrent10pstr @ replicate 8 0 @ replicate 20 1
                                   @ replicate 20 3 @ []),
           rx_close = None, tx = [], tx_error = None, clock = 0,
           deadline = Some 60, deadline_error = None, is_closed = False\<rparr>"
  have h3: "readHandShake ?c3 True
        = Some (\<lparr>rx = [], rx_close = None, tx = [], tx_error = None, clock = 5,
                 deadline = Some 60, deadline_error = None, is_closed = False\<rparr>,
                Some (replicate 20 1), Inr (replicate 20 3))"
    by (subst readHandShake_uniform[where t = 5 and res = "replicate 8 0"
          and ih = "replicate 20 1" and pid = "replicate 20 3" and rest = "[]"]) simp_all
  have c3: "map snd (take 20 (rx ?c3)) = 19 # bytes_of ''BitTorrent protocol''"
    using handshake_format_and_rejection[of ?r ?c3 "replicate 20 1" ?c3 True] h3 by blast
  let ?c0 = "\<lparr>rx = [], rx_close = None, tx = [], tx_error = None, clock = 0, deadline = None,
          deadline_error = None, is_closed = False\<rparr>"
  let ?c1 = "\<lparr>rx = [(5, 18), (5, 7)], rx_close = None, tx = [], tx_error = None, clock = 0,
           deadline = Some 60, deadline_error = None, is_closed = False\<rparr>"
  let ?c2 = "\<lparr>rx = map (Pair 5) (19 # bytes_of ''BitTorrent protocoL'' @ [9]), rx_close = None,
           tx = [], tx_error = None, clock = 0,
           deadline = Some 60, deadline_error = None, is_closed = False\<rparr>"
  have s: "sendHandShake ?r ?c0 (replicate 20 1) =
       (?c0\<lparr>tx := 19 # bitTorrent10pstr @ replicate 8 0 @ replicate 20 1 @ replicate 20 2\<rparr>, None)"
    by (simp add: sendHandShake_cases)
  have h1: "1 \<le> length (rx ?c1) \<and> in_time ?c1 1 \<and> snd (hd (rx ?c1)) \<noteq> 19"
    by (simp add: in_time_def)
  have h2: "20 \<le> length (rx ?c2) \<and> in_time ?c2 20 \<and> snd (hd (rx ?c2)) = 19
        \<and> map snd (take 19 (drop 1 (rx ?c2))) \<noteq> bytes_of ''BitTorrent protocol''"
    by (simp add: in_time_def bytes_of_def)
  show ?thesis
    using handshake_format_and_rejection[of ?r ?c0 "replicate 20 1" ?c1 True]
          handshake_format_and_rejection[of ?r ?c0 "replicate 20 1" ?c2 True] s h1 h2 h3 c3
    by (simp add: bytes_of_def)
qed



text \<open>
  Claim C8, as amended. \<open>readHandShake\<close> reads the 8 reserved bytes and throws them
  away: whether a handshake is accepted, and the connection, info hash and peer id that
  result, are the same whatever values the reserved bytes have. No reserved bit is
  recognised or recorded, and none makes the handshake fail.
\<close>

theorem reserved_bytes_discarded:
  assumes "length pre = 20" and "length res = 8" and "map fst res' = map fst res"
  shows "readHandShake (c\<lparr>rx := pre @ res' @ post\<rparr>) notify = Some (k, sent, Inr pid)
     \<longleftrightarrow> readHandShake (c\<lparr>rx := pre @ res @ post\<rparr>) notify = Some (k, sent, Inr pid)"
proof -
  have l: "length res' = 8" using assms(2,3) by (metis length_map)
  have t: "map fst (take 68 (pre @ res' @ post)) = map fst (take 68 (pre @ res @ post))"
    using assms l by simp
  have it: "in_time (c\<lparr>rx := pre @ res' @ post\<rparr>) 68 = in_time (c\<lparr>rx := pre @ res @ post\<rparr>) 68"
    unfolding in_time_fst using t by simp
  have rc: "received (c\<lparr>rx := pre @ res' @ post\<rparr>) 68 = received (c\<lparr>rx := pre @ res @ post\<rparr>) 68"
    using assms l t by (simp add: received_def)
  show ?thesis
    unfolding readHandShake_Inr using assms l it rc by simp
qed

theorem reserved_bytes_discarded_witness:
  "readHandShake
     \<lparr>rx = map (Pair 5) (19 # bitTorrent10pstr) @ map (Pair 5) [1, 2, 3, 4, 16, 6, 1, 5]
            @ map (Pair 5) (replicate 20 1 @ replicate 20 3),
      rx_close = None, tx = [], tx_error = None, clock = 0, deadline = Some 60,
      deadline_error = None, is_closed = False\<rparr> True
   = Some (\<lparr>rx = [], rx_close = None, tx = [], tx_error = None, clock = 5, deadline = Some 60,
            deadline_error = None, is_closed = False\<rparr>,
           Some (replicate 20 1), Inr (replicate 20 3))"
proof -
  let ?c = "\<lparr>rx = [], rx_close = None, tx = [], tx_error = None, clock = 0, deadline = Some 60,
            deadline_error = None, is_closed = False\<rparr>"
  have "readHandShake
     (?c\<lparr>rx := map (Pair 5) (19 # bitTorrent10pstr) @ map (Pair 5) [0, 0, 0, 0, 0, 0, 0, 0]
            @ map (Pair 5) (replicate 20 1 @ replicate 20 3)\<rparr>) True
   = Some (\<lparr>rx = [], rx_close = None, tx = [], tx_error = None, clock = 5, deadline = Some 60,
            deadline_error = None, is_closed = False\<rparr>,
           Some (replicate 20 1), Inr (replicate 20 3))"
    by (subst readHandShake_uniform[where t = 5 and res = "[0, 0, 0, 0, 0, 0, 0, 0]"
          and ih = "replicate 20 1" and pid = "replicate 20 3" and rest = "[]"], simp_all)
  then show ?thesis
    using reserved_bytes_discarded[where pre = "map (Pair 5) (19 # bitTorrent10pstr)"
        and res = "map (Pair 5) [0, 0, 0, 0, 0, 0, 0, 0]"
        and res' = "map (Pair 5) [1, 2, 3, 4, 16, 6, 1, 5]" and c = ?c
        and post = "map (Pair 5) (replicate 20 1 @ replicate 20 3)" and notify = True
        and k = "\<lparr>rx = [], rx_close = None, tx = [], tx_error = None, clock = 5,
            deadline = Some 60, deadline_error = None, is_closed = False\<rparr>"
        and sent = "Some (replicate 20 1)" and pid = "replicate 20 3"]
    by (simp add: length_bitTorrent10pstr comp_def)
qed

text \<open>
  Claim C8 as stated fails: a handshake with every reserved bit set (the fast extension
  bit and the extension protocol bit among them) and the same handshake with no
  reserved bit set give the same result and leave the same connection behind, so
  nothing about these bits is recorded for the peer.
\<close>

theorem reserved_bits_not_recorded_counterexample:
  "readHandShake
     \<lparr>rx = map (Pair 5) (19 # bitTorrent10pstr @ replicate 8 255 @ replicate 20 1 @ replicate 20 3 @ []),
      rx_close = None, tx = [], tx_error = None, clock = 0, deadline = None,
      deadline_error = None, is_closed = False\<rparr> True
   = Some (\<lparr>rx = [], rx_close = None, tx = [], tx_error = None, clock = 5, deadline = None,
            deadline_error = None, is_closed = False\<rparr>,
           Some (replicate 20 1), Inr (replicate 20 3))
   \<and> readHandShake
     \<lparr>rx = map (Pair 5) (19 # bitTorrent10pstr @ replicate 8 0 @ replicate 20 1 @ replicate 20 3 @ []),
      rx_close = None, tx = [], tx_error = None, clock = 0, deadline = None,
      deadline_error = None, is_closed = False\<rparr> True
   = Some (\<lparr>rx = [], rx_close = None, tx = [], tx_error = None, clock = 5, deadline = None,
            deadline_error = None, is_closed = False\<rparr>,
           Some (replicate 20 1), Inr (replicate 20 3))"
  by (subst readHandShake_uniform[where t = 5 and res = "replicate 8 255"
          and ih = "replicate 20 1" and pid = "replicate 20 3" and rest = "[]"], simp_all)
     (subst readHandShake_uniform[where t = 5 and res = "replicate 8 0"
          and ih = "replicate 20 1" and pid = "replicate 20 3" and rest = "[]"], simp_all)

section \<open>Properties of adding a torrent\<close>

subsection \<open>The encoding of the id\<close>

lemma length_encodeURL: "length encodeURL = 64"
  by (simp add: encodeURL_def)

lemma unat_byte: "unat (a :: byte) < 256"
  using unsigned_less[of a, where ?'a = nat] by simp

lemma encodeURL_nth: "k < 64 \<Longrightarrow> encodeURL ! k \<in> set encodeURL"
  using nth_mem[of k encodeURL] by (simp only: length_encodeURL)

lemma b64_index:
  fixes x y :: nat
  assumes "x < 256" and "y < 256"
  shows "x div 4 < 64" and "x mod 4 * 16 + y div 16 < 64"
    and "x mod 16 * 4 + y div 64 < 64" and "x mod 64 < 64"
    and "x mod 16 * 4 < 64" and "x mod 4 * 16 < 64"
proof -
  have a: "x mod 4 \<le> 3" "x mod 16 \<le> 15" by simp_all
  have b: "y div 16 \<le> 15" "y div 64 \<le> 3" using assms(2) by simp_all
  show "x div 4 < 64" using assms(1) by simp
  show "x mod 4 * 16 + y div 16 < 64" using a b by linarith
  show "x mod 16 * 4 + y div 64 < 64" using a b by linarith
  show "x mod 64 < 64" by simp
  show "x mod 16 * 4 < 64" using a by linarith
  show "x mod 4 * 16 < 64" using a by linarith
qed

lemma base64_alphabet: "set (base64_RawURLEncoding_EncodeToString src) \<subseteq> set encodeURL"
proof (induction src rule: base64_RawURLEncoding_EncodeToString.induct)
  case (1 a b c src)
  show ?case
    using 1 b64_index[OF unat_byte[of a] unat_byte[of b]]
      b64_index[OF unat_byte[of b] unat_byte[of c]] b64_index[OF unat_byte[of c] unat_byte[of c]]
    by (simp add: encodeURL_nth)
next
  case (2 a b)
  show ?case
    using b64_index[OF unat_byte[of a] unat_byte[of b]]
      b64_index[OF unat_byte[of b] unat_byte[of b]]
    by (simp add: encodeURL_nth)
next
  case (3 a)
  show ?case
    using b64_index[OF unat_byte[of a] unat_byte[of a]]
    by (simp add: encodeURL_nth)
next
  case 4
  show ?case by simp
qed

lemma base64_length:
  "length (base64_RawURLEncoding_EncodeToString src) = (length src * 4 + 2) div 3"
  by (induction src rule: base64_RawURLEncoding_EncodeToString.induct) simp_all

lemma no_padding: "CHR ''='' \<notin> set encodeURL"
  by (simp add: encodeURL_def)

lemma uuid_example:
  "base64_RawURLEncoding_EncodeToString
     [0x6b, 0xa7, 0xb8, 0x10, 0x9d, 0xad, 0x11, 0xd1, 0x80, 0xb4, 0x00, 0xc0, 0x4f, 0xd4, 0x30, 0xc8]
   = ''a6e4EJ2tEdGAtADAT9QwyA''"
  by (simp add: encodeURL_def)

lemma filepath_Join_2:
  "d \<noteq> [] \<Longrightarrow> filepath_Join clean [d, e] = clean (d @ ''/'' @ e)"
  by (simp add: filepath_Join_def)

subsection \<open>Acquiring and releasing the port\<close>

lemma add_Inr:
  "add ext s = (s1, Inr (tid, port, sto)) \<longleftrightarrow>
     availablePorts s \<noteq> {} \<and> port = pick_port ext (availablePorts s) \<and>
     s1 = s\<lparr>availablePorts := availablePorts s - {port}\<rparr> \<and>
     (\<exists>u1. uuid_NewV1 ext = Inr u1 \<and> tid = base64_RawURLEncoding_EncodeToString u1 \<and>
        filestorage_New ext (filepath_Join (filepath_Clean ext) [DataDir (config s), tid]) = Inr sto)"
  by (auto simp: add_def getPort_def releasePort_def Let_def split: sum.splits)

lemma release_after_get:
  assumes "port \<in> availablePorts s"
  shows "releasePort (s\<lparr>availablePorts := availablePorts s - {port}\<rparr>) port = s"
  using assms by (simp add: releasePort_def insert_absorb)

lemma add_Inl:
  assumes "availablePorts s \<noteq> {} \<longrightarrow> pick_port ext (availablePorts s) \<in> availablePorts s"
    and "add ext s = (s1, Inl err)"
  shows "s1 = s"
  using assms release_after_get[of "pick_port ext (availablePorts s)" s]
  by (auto simp: add_def getPort_def Let_def split: sum.splits if_splits)

text \<open>
  Claim C9. The id that \<open>add\<close> returns is the unpadded URL-safe base64 encoding of the
  UUID that \<open>uuid.NewV1\<close> returned: characters of the URL-safe alphabet only, no
  \<open>=\<close>, and 22 of them for the 16 bytes of a UUID. The storage is created for the path
  that joins the data directory of the session and this id. When \<open>addTorrentStopped\<close>
  or \<open>addMagnet\<close> returns a torrent, the id of the torrent is this id, the resume
  store holds under this id a value whose destination is the destination of this
  storage, and the registry holds the torrent under this id.
\<close>

theorem torrent_id_is_resume_key_and_directory:
  "(\<forall>s1 tid port sto. add ext s = (s1, Inr (tid, port, sto)) \<longrightarrow>
      (\<exists>u1. uuid_NewV1 ext = Inr u1 \<and> tid = base64_RawURLEncoding_EncodeToString u1
         \<and> set tid \<subseteq> set encodeURL \<and> CHR ''='' \<notin> set tid
         \<and> (length u1 = 16 \<longrightarrow> length tid = 22))
      \<and> filestorage_New ext (filepath_Join (filepath_Clean ext) [DataDir (config s), tid]) = Inr sto
      \<and> (DataDir (config s) \<noteq> [] \<longrightarrow>
           filepath_Join (filepath_Clean ext) [DataDir (config s), tid]
             = filepath_Clean ext (DataDir (config s) @ ''/'' @ tid)))
   \<and> (\<forall>s' t. addTorrentStopped ext s r = (s', Inr t) \<longrightarrow>
        (\<exists>s1. add ext s = (s1, Inr (t_id t, t_port t, t_storage t)))
        \<and> (\<exists>spec. resumer s' (t_id t) = Some spec \<and> rs_Dest spec = fs_Dest (t_storage t))
        \<and> torrents s' (t_id t) = Some t)
   \<and> (\<forall>s' t e. addMagnet ext s link opt = (s', Some t, e) \<longrightarrow>
        (\<exists>s1. add ext s = (s1, Inr (t_id t, t_port t, t_storage t)))
        \<and> (\<exists>spec. resumer s' (t_id t) = Some spec \<and> rs_Dest spec = fs_Dest (t_storage t))
        \<and> torrents s' (t_id t) = Some t)"
proof -
  have A: "(\<exists>u1. uuid_NewV1 ext = Inr u1 \<and> tid = base64_RawURLEncoding_EncodeToString u1
         \<and> set tid \<subseteq> set encodeURL \<and> CHR ''='' \<notin> set tid
         \<and> (length u1 = 16 \<longrightarrow> length tid = 22))
      \<and> filestorage_New ext (filepath_Join (filepath_Clean ext) [DataDir (config s), tid]) = Inr sto
      \<and> (DataDir (config s) \<noteq> [] \<longrightarrow>
           filepath_Join (filepath_Clean ext) [DataDir (config s), tid]
             = filepath_Clean ext (DataDir (config s) @ ''/'' @ tid))"
    if "add ext s = (s1, Inr (tid, port, sto))" for s1 tid port sto
  proof -
    from that obtain u1 where u: "uuid_NewV1 ext = Inr u1"
        "tid = base64_RawURLEncoding_EncodeToString u1"
        "filestorage_New ext (filepath_Join (filepath_Clean ext) [DataDir (config s), tid]) = Inr sto"
      unfolding add_Inr by blast
    have "set tid \<subseteq> set encodeURL" using u(2) base64_alphabet by simp
    moreover from this have "CHR ''='' \<notin> set tid" using no_padding by blast
    moreover have "length u1 = 16 \<longrightarrow> length tid = 22" using u(2) by (simp add: base64_length)
    ultimately show ?thesis using u filepath_Join_2 by blast
  qed
  have B: "(\<exists>s1. add ext s = (s1, Inr (t_id t, t_port t, t_storage t)))
        \<and> (\<exists>spec. resumer s' (t_id t) = Some spec \<and> rs_Dest spec = fs_Dest (t_storage t))
        \<and> torrents s' (t_id t) = Some t"
    if a: "addTorrentStopped ext s r = (s', Inr t)" for s' t
  proof (cases "add ext s")
    case (Pair s1 res)
    show ?thesis using a Pair
      by (auto simp: addTorrentStopped_def newTorrent2_def resumer_Write_def
              torrent_Close_def releasePort_def insertTorrent_def Let_def
            split: sum.splits option.splits prod.splits)
  qed
  have C: "(\<exists>s1. add ext s = (s1, Inr (t_id t, t_port t, t_storage t)))
        \<and> (\<exists>spec. resumer s' (t_id t) = Some spec \<and> rs_Dest spec = fs_Dest (t_storage t))
        \<and> torrents s' (t_id t) = Some t"
    if a: "addMagnet ext s link opt = (s', Some t, e)" for s' t e
  proof (cases "add ext s")
    case (Pair s1 res)
    show ?thesis using a Pair
      by (auto simp: addMagnet_def newTorrent2_def resumer_Write_def Torrent_Start_def
              torrent_Close_def releasePort_def insertTorrent_def Let_def
            split: sum.splits option.splits prod.splits if_splits)
  qed
  show ?thesis using A B C by blast
qed

theorem torrent_id_is_resume_key_and_directory_witness:
  "\<exists>s' t. addTorrentStopped
     \<lparr>metainfo_New = (\<lambda>bs. Inr \<lparr>mi_Info = \<lparr>Info_Hash = [1], Info_Name = ''n'',
                                          Info_IsPrivate = False, Info_Bytes = bs\<rparr>,
                               mi_AnnounceList = [], mi_URLList = []\<rparr>),
      magnet_New = (\<lambda>l. Inl (errors_New ''no magnet'')),
      uuid_NewV1 = Inr [0x6b, 0xa7, 0xb8, 0x10, 0x9d, 0xad, 0x11, 0xd1,
                        0x80, 0xb4, 0x00, 0xc0, 0x4f, 0xd4, 0x30, 0xc8],
      filestorage_New = (\<lambda>d. Inr \<lparr>fs_Dest = d\<rparr>),
      newTorrent2_error = None, resumer_Write_error = None,
      Start_error = None, pick_port = (\<lambda>ports. 6881), time_Now = 7,
      filepath_Clean = (\<lambda>p. p), parseTrackers = (\<lambda>a p. a)\<rparr>
     \<lparr>config = \<lparr>DataDir = ''/data'', MaxTorrentSize = 100\<rparr>, availablePorts = {6881},
      torrents = Map.empty, torrentsByInfoHash = (\<lambda>ih. []), resumer = Map.empty,
      openTorrents = [], goroutines = [], started = []\<rparr>
     [100, 101] = (s', Inr t)
    \<and> t_id t = ''a6e4EJ2tEdGAtADAT9QwyA''
    \<and> fs_Dest (t_storage t) = ''/data/a6e4EJ2tEdGAtADAT9QwyA''
    \<and> (\<exists>spec. resumer s' ''a6e4EJ2tEdGAtADAT9QwyA'' = Some spec
           \<and> rs_Dest spec = ''/data/a6e4EJ2tEdGAtADAT9QwyA'')
    \<and> torrents s' ''a6e4EJ2tEdGAtADAT9QwyA'' = Some t"
proof -
  let ?ext = "\<lparr>metainfo_New = (\<lambda>bs. Inr \<lparr>mi_Info = \<lparr>Info_Hash = [1], Info_Name = ''n'',
                                          Info_IsPrivate = False, Info_Bytes = bs\<rparr>,
                               mi_AnnounceList = [], mi_URLList = []\<rparr>),
      magnet_New = (\<lambda>l. Inl (errors_New ''no magnet'')),
      uuid_NewV1 = Inr [0x6b, 0xa7, 0xb8, 0x10, 0x9d, 0xad, 0x11, 0xd1,
                        0x80, 0xb4, 0x00, 0xc0, 0x4f, 0xd4, 0x30, 0xc8],
      filestorage_New = (\<lambda>d. Inr \<lparr>fs_Dest = d\<rparr>),
      newTorrent2_error = None, resumer_Write_error = None,
      Start_error = None, pick_port = (\<lambda>ports. 6881), time_Now = 7,
      filepath_Clean = (\<lambda>p. p), parseTrackers = (\<lambda>a p. a)\<rparr>"
  let ?s = "\<lparr>config = \<lparr>DataDir = ''/data'', MaxTorrentSize = 100\<rparr>, availablePorts = {6881},
      torrents = Map.empty, torrentsByInfoHash = (\<lambda>ih. []), resumer = Map.empty,
      openTorrents = [], goroutines = [], started = []\<rparr>"
  obtain s' res where r: "addTorrentStopped ?ext ?s [100, 101] = (s', res)"
    by (cases "addTorrentStopped ?ext ?s [100, 101]")
  then obtain t where t: "res = Inr t"
    by (auto simp: addTorrentStopped_def add_def getPort_def newTorrent2_def resumer_Write_def
          insertTorrent_def Let_def)
  note th = torrent_id_is_resume_key_and_directory[of ?ext ?s "[100, 101]"]
  from th r t obtain s1 where a: "add ?ext ?s = (s1, Inr (t_id t, t_port t, t_storage t))"
    by blast
  from th a obtain u1 where u: "uuid_NewV1 ?ext = Inr u1"
      "t_id t = base64_RawURLEncoding_EncodeToString u1"
    by blast
  from u have i: "t_id t = ''a6e4EJ2tEdGAtADAT9QwyA''"
    by (auto simp: encodeURL_def)
  from th a have "filestorage_New ?ext (filepath_Join (filepath_Clean ?ext) [DataDir (config ?s), t_id t])
      = Inr (t_storage t)"
    by blast
  then have "t_storage t = \<lparr>fs_Dest = filepath_Join (\<lambda>p. p) [''/data'', t_id t]\<rparr>"
    by (simp add: eq_commute)
  then have d: "fs_Dest (t_storage t) = ''/data/a6e4EJ2tEdGAtADAT9QwyA''"
    using i by (simp add: filepath_Join_def)
  from th r t have "(\<exists>spec. resumer s' (t_id t) = Some spec \<and> rs_Dest spec = fs_Dest (t_storage t))
        \<and> torrents s' (t_id t) = Some t"
    by blast
  then show ?thesis using r t i d by auto
qed

text \<open>
  Claim C10. For a port allocator that hands out a port it holds: when \<open>add\<close> fails,
  the session is as before; when \<open>addTorrentStopped\<close> returns an error, or
  \<open>addMagnet\<close> returns an error and no torrent, the free ports are as before (the
  acquired port was released), the open torrents are as before (a torrent constructed on
  the way was closed), and both registries, the resume store and the started torrents
  are unchanged.
\<close>

theorem failed_add_restores_session:
  assumes "availablePorts s \<noteq> {} \<longrightarrow> pick_port ext (availablePorts s) \<in> availablePorts s"
  shows "(\<forall>s' err. add ext s = (s', Inl err) \<longrightarrow> s' = s)
    \<and> (\<forall>s' err. addTorrentStopped ext s r = (s', Inl err) \<longrightarrow>
          availablePorts s' = availablePorts s \<and> openTorrents s' = openTorrents s \<and>
          torrents s' = torrents s \<and> torrentsByInfoHash s' = torrentsByInfoHash s \<and>
          resumer s' = resumer s \<and> started s' = started s \<and> config s' = config s)
    \<and> (\<forall>s' err. addMagnet ext s link opt = (s', None, Some err) \<longrightarrow>
          availablePorts s' = availablePorts s \<and> openTorrents s' = openTorrents s \<and>
          torrents s' = torrents s \<and> torrentsByInfoHash s' = torrentsByInfoHash s \<and>
          resumer s' = resumer s \<and> started s' = started s \<and> config s' = config s)"
proof -
  have A: "s' = s" if "add ext s = (s', Inl err)" for s' err
    using that add_Inl[OF assms] by simp
  have B: "availablePorts s' = availablePorts s \<and> openTorrents s' = openTorrents s \<and>
          torrents s' = torrents s \<and> torrentsByInfoHash s' = torrentsByInfoHash s \<and>
          resumer s' = resumer s \<and> started s' = started s \<and> config s' = config s"
    if a: "addTorrentStopped ext s r = (s', Inl err)" for s' err
  proof (cases "add ext s")
    case (Pair s1 res)
    show ?thesis
    proof (cases res)
      case (Inl e)
      then have "s1 = s" using add_Inl[OF assms] Pair by simp
      then show ?thesis using a Pair Inl
        by (auto simp: addTorrentStopped_def split: sum.splits)
    next
      case (Inr x)
      obtain tid port sto where x: "x = (tid, port, sto)" by (cases x)
      have p: "port \<in> availablePorts s" "s1 = s\<lparr>availablePorts := availablePorts s - {port}\<rparr>"
        using Pair Inr x assms by (auto simp: add_Inr)
      show ?thesis using a Pair Inr x p
        by (auto simp: addTorrentStopped_def newTorrent2_def resumer_Write_def
              torrent_Close_def releasePort_def insertTorrent_def Let_def insert_absorb
            split: sum.splits option.splits prod.splits)
    qed
  qed
  have C: "availablePorts s' = availablePorts s \<and> openTorrents s' = openTorrents s \<and>
          torrents s' = torrents s \<and> torrentsByInfoHash s' = torrentsByInfoHash s \<and>
          resumer s' = resumer s \<and> started s' = started s \<and> config s' = config s"
    if a: "addMagnet ext s link opt = (s', None, Some err)" for s' err
  proof (cases "add ext s")
    case (Pair s1 res)
    show ?thesis
    proof (cases res)
      case (Inl e)
      then have "s1 = s" using add_Inl[OF assms] Pair by simp
      then show ?thesis using a Pair Inl
        by (auto simp: addMagnet_def split: sum.splits)
    next
      case (Inr x)
      obtain tid port sto where x: "x = (tid, port, sto)" by (cases x)
      have p: "port \<in> availablePorts s" "s1 = s\<lparr>availablePorts := availablePorts s - {port}\<rparr>"
        using Pair Inr x assms by (auto simp: add_Inr)
      show ?thesis using a Pair Inr x p
        by (auto simp: addMagnet_def newTorrent2_def resumer_Write_def Torrent_Start_def
              torrent_Close_def releasePort_def insertTorrent_def Let_def insert_absorb
            split: sum.splits option.splits prod.splits if_splits)
    qed
  qed
  show ?thesis using A B C by blast
qed

theorem failed_add_restores_session_witness:
  "addTorrentStopped
     \<lparr>metainfo_New = (\<lambda>bs. Inr \<lparr>mi_Info = \<lparr>Info_Hash = [1], Info_Name = ''n'',
                                          Info_IsPrivate = False, Info_Bytes = bs\<rparr>,
                               mi_AnnounceList = [], mi_URLList = []\<rparr>),
      magnet_New = (\<lambda>l. Inl (errors_New ''no magnet'')),
      uuid_NewV1 = Inr [0x6b, 0xa7, 0xb8, 0x10, 0x9d, 0xad, 0x11, 0xd1,
                        0x80, 0xb4, 0x00, 0xc0, 0x4f, 0xd4, 0x30, 0xc8],
      filestorage_New = (\<lambda>d. Inr \<lparr>fs_Dest = d\<rparr>),
      newTorrent2_error = None,
      resumer_Write_error = Some (ErrNet ''disk full''),
      Start_error = None, pick_port = (\<lambda>ports. 6881), time_Now = 7,
      filepath_Clean = (\<lambda>p. p), parseTrackers = (\<lambda>a p. a)\<rparr>
     \<lparr>config = \<lparr>DataDir = ''/data'', MaxTorrentSize = 100\<rparr>, availablePorts = {6881},
      torrents = Map.empty, torrentsByInfoHash = (\<lambda>ih. []), resumer = Map.empty,
      openTorrents = [], goroutines = [], started = []\<rparr>
     [100, 101]
   = (\<lparr>config = \<lparr>DataDir = ''/data'', MaxTorrentSize = 100\<rparr>, availablePorts = {6881},
      torrents = Map.empty, torrentsByInfoHash = (\<lambda>ih. []), resumer = Map.empty,
      openTorrents = [], goroutines = [''a6e4EJ2tEdGAtADAT9QwyA''], started = []\<rparr>,
      Inl (ErrNet ''disk full''))"
proof -
  let ?ext = "\<lparr>metainfo_New = (\<lambda>bs. Inr \<lparr>mi_Info = \<lparr>Info_Hash = [1], Info_Name = ''n'',
                                          Info_IsPrivate = False, Info_Bytes = bs\<rparr>,
                               mi_AnnounceList = [], mi_URLList = []\<rparr>),
      magnet_New = (\<lambda>l. Inl (errors_New ''no magnet'')),
      uuid_NewV1 = Inr [0x6b, 0xa7, 0xb8, 0x10, 0x9d, 0xad, 0x11, 0xd1,
                        0x80, 0xb4, 0x00, 0xc0, 0x4f, 0xd4, 0x30, 0xc8],
      filestorage_New = (\<lambda>d. Inr \<lparr>fs_Dest = d\<rparr>),
      newTorrent2_error = None,
      resumer_Write_error = Some (ErrNet ''disk full''),
      Start_error = None, pick_port = (\<lambda>ports. 6881), time_Now = 7,
      filepath_Clean = (\<lambda>p. p), parseTrackers = (\<lambda>a p. a)\<rparr>"
  let ?s = "\<lparr>config = \<lparr>DataDir = ''/data'', MaxTorrentSize = 100\<rparr>, availablePorts = {6881},
      torrents = Map.empty, torrentsByInfoHash = (\<lambda>ih. []), resumer = Map.empty,
      openTorrents = [], goroutines = [], started = []\<rparr>"
  obtain s' res where r: "addTorrentStopped ?ext ?s [100, 101] = (s', res)"
    by (cases "addTorrentStopped ?ext ?s [100, 101]")
  have e: "res = Inl (ErrNet ''disk full'')"
      "goroutines s' = [''a6e4EJ2tEdGAtADAT9QwyA'']"
    using r
    by (auto simp: addTorrentStopped_def add_def getPort_def newTorrent2_def resumer_Write_def
          encodeURL_def Let_def releasePort_def torrent_Close_def)
  have h: "availablePorts ?s \<noteq> {} \<longrightarrow> pick_port ?ext (availablePorts ?s) \<in> availablePorts ?s"
    by simp
  have "availablePorts s' = availablePorts ?s \<and> openTorrents s' = openTorrents ?s \<and>
          torrents s' = torrents ?s \<and> torrentsByInfoHash s' = torrentsByInfoHash ?s \<and>
          resumer s' = resumer ?s \<and> started s' = started ?s \<and> config s' = config ?s"
    using failed_add_restores_session[OF h, of "[100, 101]"] r e by blast
  then have "s' = ?s\<lparr>goroutines := [''a6e4EJ2tEdGAtADAT9QwyA'']\<rparr>"
    using e(2) by (cases s') simp
  then show ?thesis using r e by simp
qed

text \<open>
  Outside the failures that claim C10 lists: when \<open>Start\<close> fails in \<open>addMagnet\<close>,
  the torrent has been inserted and is returned together with the error, and the
  deferred functions close it and release its port all the same.
\<close>

lemma addMagnet_Start_failure:
  "addMagnet
     \<lparr>metainfo_New = (\<lambda>bs. Inl (errors_New ''no metainfo'')),
      magnet_New = (\<lambda>l. Inr \<lparr>ma_InfoHash = [1], ma_Name = ''n'', ma_Trackers = [], ma_Peers = []\<rparr>),
      uuid_NewV1 = Inr [0x6b, 0xa7, 0xb8, 0x10, 0x9d, 0xad, 0x11, 0xd1,
                        0x80, 0xb4, 0x00, 0xc0, 0x4f, 0xd4, 0x30, 0xc8],
      filestorage_New = (\<lambda>d. Inr \<lparr>fs_Dest = d\<rparr>),
      newTorrent2_error = None, resumer_Write_error = None,
      Start_error = Some (ErrNet ''cannot start''), pick_port = (\<lambda>ports. 6881), time_Now = 7,
      filepath_Clean = (\<lambda>p. p), parseTrackers = (\<lambda>a p. a)\<rparr>
     \<lparr>config = \<lparr>DataDir = ''/data'', MaxTorrentSize = 100\<rparr>, availablePorts = {6881},
      torrents = Map.empty, torrentsByInfoHash = (\<lambda>ih. []), resumer = Map.empty,
      openTorrents = [], goroutines = [], started = []\<rparr>
     ''magnet:?xt=urn:btih:01'' None
   = (s', t, e) \<Longrightarrow>
     e = Some (ErrNet ''cannot start'') \<and> t \<noteq> None \<and>
     torrents s' ''a6e4EJ2tEdGAtADAT9QwyA'' = t \<and>
     availablePorts s' = {6881} \<and> openTorrents s' = []"
  by (auto simp: addMagnet_def add_def getPort_def newTorrent2_def resumer_Write_def
        insertTorrent_def Let_def Torrent_Start_def releasePort_def torrent_Close_def
        encodeURL_def)

end
